theory Spec2Isabelle
  imports Complex_Main "HOL-Library.Sublist" "HOL-Library.Multiset"
begin

section \<open>Python values, strings and exceptions\<close>

text \<open>
  The two scripts \<^verbatim>\<open>image_collection_with_ann.py\<close> and \<^verbatim>\<open>single_image_with_ann.py\<close>
  handle parsed JSON documents and the cells of pandas tables. Both are Python objects:
  \<^verbatim>\<open>None\<close>, booleans, ints, floats, strings, lists and dicts. A finite float is kept by
  its value; \<^verbatim>\<open>float('nan')\<close>, which pandas puts into every missing cell, is a value of
  its own. A dict is an association list read with \<open>map_of\<close>; strings are ASCII.
\<close>

datatype pyval =
    PNone
  | PBool bool
  | PInt int
  | PFloat rat
  | PNaN
  | PStr string
  | PList "pyval list"
  | PDict "(string \<times> pyval) list"

text \<open>
  Exceptions are values. \<open>NoMediaCol\<close> is the \<^verbatim>\<open>ValueError\<close> that
  \<^verbatim>\<open>detect_ann_media_col\<close> raises; it carries \<^verbatim>\<open>list(df.columns)[:20]\<close>.
  \<open>Failure\<close> stands for any exception of the client library or of pandas.
\<close>

datatype exn =
    NoMediaCol "string list"
  | ValueError
  | TypeError
  | OverflowError
  | KeyError
  | AttributeError
  | Failure string

text \<open>\<^verbatim>\<open>str.lower()\<close> on ASCII text.\<close>

definition lower_char :: "char \<Rightarrow> char" where
  "lower_char c =
     (let n = (of_char c :: nat) in if 65 \<le> n \<and> n \<le> 90 then char_of (n + 32) else c)"

definition lower :: "string \<Rightarrow> string" where
  "lower s = map lower_char s"

text \<open>\<^verbatim>\<open>s.split(".")\<close>: the pieces between the dots; never an empty list.\<close>

fun split_dot :: "string \<Rightarrow> string list" where
  "split_dot [] = [[]]"
| "split_dot (c # cs) =
     (if c = CHR ''.'' then [] # split_dot cs
      else (case split_dot cs of
              p # ps \<Rightarrow> (c # p) # ps
            | [] \<Rightarrow> [[c]]))"

section \<open>Join-Key Detector\<close>

text \<open>
  \<^verbatim>\<open>detect_ann_media_col(df)\<close> reads only \<^verbatim>\<open>df.columns\<close>. The two files hold the same
  function; they differ in the wording of the error message alone.
\<close>

definition media_suffixes :: "string list" where
  "media_suffixes = [''point.media.id'', ''media.id'', ''media_id'', ''point_media_id'']"

definition ends_with_media_suffix :: "string \<Rightarrow> bool" where
  "ends_with_media_suffix c = list_ex (\<lambda>s. suffix s (lower c)) media_suffixes"

definition mentions_media_id :: "string \<Rightarrow> bool" where
  "mentions_media_id c = (let cl = lower c in sublist ''media'' cl \<and> sublist ''id'' cl)"

fun first_mention :: "string list \<Rightarrow> string option" where
  "first_mention [] = None"
| "first_mention (c # cs) = (if mentions_media_id c then Some c else first_mention cs)"

definition detect_ann_media_col :: "string list \<Rightarrow> exn + string" where
  "detect_ann_media_col cols =
     (let cands = filter ends_with_media_suffix cols in
      if cands \<noteq> [] then Inr (hd cands)
      else (case first_mention cols of
              Some c \<Rightarrow> Inr c
            | None \<Rightarrow> Inl (NoMediaCol (take 20 cols))))"

section \<open>Dotted-Path Projector\<close>

text \<open>
  \<^verbatim>\<open>get_by_dotted(d, dotted, default)\<close>. The loop over \<^verbatim>\<open>dotted.split(".")\<close> is
  \<open>descend\<close>: \<^verbatim>\<open>isinstance(cur, dict) and part in cur\<close> is the one case of the match
  that goes on, every other case returns the default.
\<close>

fun descend :: "pyval \<Rightarrow> string list \<Rightarrow> pyval \<Rightarrow> pyval" where
  "descend cur [] dflt = cur"
| "descend cur (part # parts) dflt =
     (case cur of
        PDict kvs \<Rightarrow>
          (case map_of kvs part of
             Some v \<Rightarrow> descend v parts dflt
           | None \<Rightarrow> dflt)
      | _ \<Rightarrow> dflt)"

definition get_by_dotted :: "pyval \<Rightarrow> string \<Rightarrow> pyval \<Rightarrow> pyval" where
  "get_by_dotted d dotted dflt = descend d (split_dot dotted) dflt"

text \<open>
  What the contract speaks of: \<open>has_key cur part\<close> says that \<open>cur\<close> is a mapping with
  the component \<open>part\<close>, and \<open>reaches d parts v\<close> that descending from \<open>d\<close> along
  \<open>parts\<close>, one component at a time, arrives at \<open>v\<close>.
\<close>

definition has_key :: "pyval \<Rightarrow> string \<Rightarrow> bool" where
  "has_key cur part = (case cur of PDict kvs \<Rightarrow> map_of kvs part \<noteq> None | _ \<Rightarrow> False)"

inductive reaches :: "pyval \<Rightarrow> string list \<Rightarrow> pyval \<Rightarrow> bool" where
  reaches_here: "reaches d [] d"
| reaches_step: "map_of kvs part = Some v \<Longrightarrow> reaches v parts r \<Longrightarrow>
     reaches (PDict kvs) (part # parts) r"

section \<open>Python conversions\<close>

text \<open>\<^verbatim>\<open>int(s)\<close> for a string: surrounding whitespace, one optional sign, decimal digits
  with single underscores between them.\<close>

definition is_space :: "char \<Rightarrow> bool" where
  "is_space c = (let n = (of_char c :: nat) in (9 \<le> n \<and> n \<le> 13) \<or> (28 \<le> n \<and> n \<le> 32))"

definition is_digit :: "char \<Rightarrow> bool" where
  "is_digit c = (let n = (of_char c :: nat) in 48 \<le> n \<and> n \<le> 57)"

definition digit_val :: "char \<Rightarrow> nat" where
  "digit_val c = of_char c - 48"

definition strip :: "string \<Rightarrow> string" where
  "strip s = rev (dropWhile is_space (rev (dropWhile is_space s)))"

fun more_digits :: "nat \<Rightarrow> string \<Rightarrow> nat option" where
  "more_digits acc [] = Some acc"
| "more_digits acc (c # cs) =
     (if is_digit c then more_digits (10 * acc + digit_val c) cs
      else if c = CHR ''_'' then
        (case cs of
           [] \<Rightarrow> None
         | c' # cs' \<Rightarrow> if is_digit c' then more_digits (10 * acc + digit_val c') cs' else None)
      else None)"

definition digits :: "string \<Rightarrow> nat option" where
  "digits s = (case s of [] \<Rightarrow> None
               | c # cs \<Rightarrow> if is_digit c then more_digits (digit_val c) cs else None)"

definition int_of_str :: "string \<Rightarrow> int option" where
  "int_of_str s =
     (case strip s of
        [] \<Rightarrow> None
      | c # cs \<Rightarrow>
          if c = CHR ''-'' then map_option (\<lambda>n. - int n) (digits cs)
          else if c = CHR ''+'' then map_option int (digits cs)
          else map_option int (digits (c # cs)))"

text \<open>\<^verbatim>\<open>int(x)\<close>: a float is cut towards zero, NaN and a malformed string raise
  \<^verbatim>\<open>ValueError\<close>, \<^verbatim>\<open>None\<close> and containers raise \<^verbatim>\<open>TypeError\<close>.\<close>

fun py_int :: "pyval \<Rightarrow> exn + int" where
  "py_int (PInt n) = Inr n"
| "py_int (PBool b) = Inr (if b then 1 else 0)"
| "py_int (PFloat q) = Inr (if 0 \<le> q then \<lfloor>q\<rfloor> else \<lceil>q\<rceil>)"
| "py_int PNaN = Inl ValueError"
| "py_int (PStr s) = (case int_of_str s of Some n \<Rightarrow> Inr n | None \<Rightarrow> Inl ValueError)"
| "py_int PNone = Inl TypeError"
| "py_int (PList xs) = Inl TypeError"
| "py_int (PDict kvs) = Inl TypeError"

text \<open>\<^verbatim>\<open>bool(x)\<close>, the truth value that \<^verbatim>\<open>or\<close> and \<^verbatim>\<open>if\<close> test. NaN is not zero: it is true.\<close>

fun truthy :: "pyval \<Rightarrow> bool" where
  "truthy PNone = False"
| "truthy (PBool b) = b"
| "truthy (PInt n) = (n \<noteq> 0)"
| "truthy (PFloat q) = (q \<noteq> 0)"
| "truthy PNaN = True"
| "truthy (PStr s) = (s \<noteq> [])"
| "truthy (PList xs) = (xs \<noteq> [])"
| "truthy (PDict kvs) = (kvs \<noteq> [])"

section \<open>Tables\<close>

text \<open>
  A \<^verbatim>\<open>pandas.DataFrame\<close>: the column labels and the rows, each row a list of cells in
  column order. \<open>wf_table\<close> says that every row has one cell per column.
  \<^verbatim>\<open>df.empty\<close> is true when either axis has length 0; a table can have rows and no
  column.
\<close>

record 'c table =
  columns :: "string list"
  rows :: "'c list list"

definition wf_table :: "'c table \<Rightarrow> bool" where
  "wf_table t = list_all (\<lambda>r. length r = length (columns t)) (rows t)"

definition empty_df :: "'c table \<Rightarrow> bool" where
  "empty_df t = (columns t = [] \<or> rows t = [])"

text \<open>The position of the first column with the label \<open>col\<close>.\<close>

fun position :: "string \<Rightarrow> string list \<Rightarrow> nat" where
  "position col [] = 0"
| "position col (c # cs) = (if c = col then 0 else Suc (position col cs))"

text \<open>\<^verbatim>\<open>df[col]\<close>: the cells of one column, \<^verbatim>\<open>KeyError\<close> for an unknown label.\<close>

definition getcol :: "'c table \<Rightarrow> string \<Rightarrow> exn + 'c list" where
  "getcol t col =
     (if col \<in> set (columns t) then Inr (map (\<lambda>r. r ! position col (columns t)) (rows t))
      else Inl KeyError)"

text \<open>\<^verbatim>\<open>df[keep]\<close> for a boolean mask \<open>keep\<close> with one entry per row.\<close>

definition mask :: "'c table \<Rightarrow> bool list \<Rightarrow> 'c table" where
  "mask t keep = t\<lparr>rows := map fst (filter snd (zip (rows t) keep))\<rparr>"

text \<open>
  \<^verbatim>\<open>pd.to_numeric(series, errors="coerce").astype("Int64")\<close>. pandas is not part of the
  repository: how it reads one cell is the parameter \<open>coerce\<close>, with \<open>Inr (Some n)\<close> for a
  cell that holds the integer \<open>n\<close>, \<open>Inr None\<close> (\<^verbatim>\<open><NA>\<close>) for an absent or non-numeric
  cell, and \<open>Inl e\<close> where the cast raises. The column raises when one of its cells does.
\<close>

fun to_Int64 :: "('c \<Rightarrow> exn + int option) \<Rightarrow> 'c list \<Rightarrow> exn + int option list" where
  "to_Int64 coerce [] = Inr []"
| "to_Int64 coerce (x # xs) =
     (case coerce x of
        Inl e \<Rightarrow> Inl e
      | Inr m \<Rightarrow> (case to_Int64 coerce xs of Inl e \<Rightarrow> Inl e | Inr ms \<Rightarrow> Inr (m # ms)))"

section \<open>Referential Filter\<close>

text \<open>\<^verbatim>\<open>mids.isin(pd.Index(media_ids, dtype="Int64"))\<close>: \<^verbatim>\<open><NA>\<close> is in no list of ints.\<close>

definition isin :: "int option \<Rightarrow> int list \<Rightarrow> bool" where
  "isin m media_ids = (case m of Some n \<Rightarrow> n \<in> set media_ids | None \<Rightarrow> False)"

definition post_filter_ann_to_media_ids ::
  "('c \<Rightarrow> exn + int option) \<Rightarrow> 'c table \<Rightarrow> int list \<Rightarrow> exn + 'c table" where
  "post_filter_ann_to_media_ids coerce ann_df media_ids =
     (if empty_df ann_df then Inr ann_df
      else
        (case detect_ann_media_col (columns ann_df) of
           Inl e \<Rightarrow> Inl e
         | Inr col \<Rightarrow>
             (case getcol ann_df col of
                Inl e \<Rightarrow> Inl e
              | Inr series \<Rightarrow>
                  (case to_Int64 coerce series of
                     Inl e \<Rightarrow> Inl e
                   | Inr mids \<Rightarrow>
                       (let keep = map (\<lambda>m. isin m media_ids) mids
                        in Inr (mask ann_df keep))))))"

text \<open>The join key of a row: its cell in the column \<open>col\<close>, read as a nullable integer.\<close>

definition join_key ::
  "('c \<Rightarrow> exn + int option) \<Rightarrow> 'c table \<Rightarrow> string \<Rightarrow> 'c list \<Rightarrow> exn + int option" where
  "join_key coerce t col r = coerce (r ! position col (columns t))"

text \<open>
  A reading of cells for the examples below: an int is itself, a float without
  fractional part its value, a string that spells an integer that integer; a float
  with a fractional part is refused by the cast; anything else is \<^verbatim>\<open><NA>\<close>.
\<close>

fun coerce_cell :: "pyval \<Rightarrow> exn + int option" where
  "coerce_cell (PInt n) = Inr (Some n)"
| "coerce_cell (PFloat q) = (if of_int \<lfloor>q\<rfloor> = q then Inr (Some \<lfloor>q\<rfloor>) else Inl TypeError)"
| "coerce_cell (PStr s) = Inr (int_of_str s)"
| "coerce_cell v = Inr None"

definition ann_example :: "pyval table" where
  "ann_example =
     \<lparr>columns = [''id'', ''point.media.id''],
      rows = [[PInt 10, PStr ''1''], [PInt 11, PStr ''2''], [PInt 12, PStr ''4''],
              [PInt 13, PStr ''bad'']]\<rparr>"

section \<open>Per-Identifier Resolver\<close>

text \<open>
  The warnings that \<^verbatim>\<open>fetch_annotations_by_ids_for_media_via_get\<close> prints, as values:
  the identifier not found, the annotation on another media (with the reference found
  and the media asked for), the annotation in another set, and the failed request.
\<close>

datatype diag =
    NotFound int
  | WrongMedia int pyval int
  | WrongSet int pyval int
  | GetFailed int exn

fun diag_id :: "diag \<Rightarrow> int" where
  "diag_id (NotFound aid) = aid"
| "diag_id (WrongMedia aid ref media_id) = aid"
| "diag_id (WrongSet aid ref annset_id) = aid"
| "diag_id (GetFailed aid e) = aid"

definition ENFORCE_ANNSET :: bool where
  "ENFORCE_ANNSET = True"

definition is_dict :: "pyval \<Rightarrow> bool" where
  "is_dict v = (case v of PDict kvs \<Rightarrow> True | _ \<Rightarrow> False)"

text \<open>\<^verbatim>\<open>js.get(key)\<close> on a dict: the value, or \<^verbatim>\<open>None\<close> for a missing key.\<close>

definition dict_get :: "pyval \<Rightarrow> string \<Rightarrow> pyval" where
  "dict_get d k =
     (case d of
        PDict kvs \<Rightarrow> (case map_of kvs k of Some v \<Rightarrow> v | None \<Rightarrow> PNone)
      | _ \<Rightarrow> PNone)"

definition media_ref :: "pyval \<Rightarrow> pyval" where
  "media_ref js =
     get_by_dotted js ''point.media.id'' (get_by_dotted js ''point.media_id'' PNone)"

definition annset_ref :: "pyval \<Rightarrow> pyval" where
  "annset_ref js =
     get_by_dotted js ''annotation_set_id'' (get_by_dotted js ''point.annotation_set_id'' PNone)"

text \<open>\<^verbatim>\<open>{k: get_by_dotted(js, k, "") for k in ann_fields}\<close>, read in the order of
  \<^verbatim>\<open>ann_fields\<close> when the table is built.\<close>

definition project :: "pyval \<Rightarrow> string list \<Rightarrow> pyval list" where
  "project js ann_fields = map (\<lambda>k. get_by_dotted js k (PStr '''')) ann_fields"

text \<open>
  One turn of the loop, for the identifier \<open>aid\<close>. The parameter \<open>get\<close> is
  \<^verbatim>\<open>sq.get(f"/api/annotation/{int(aid)}").execute().json()\<close>, with \<open>Inl\<close> for any
  exception of the request. An exception of \<^verbatim>\<open>int(...)\<close> is caught by the same handler.
  The result is the row to append, or the warning printed.
\<close>

definition annset_stage :: "pyval \<Rightarrow> int option \<Rightarrow> int \<Rightarrow> diag option" where
  "annset_stage js annset_id aid =
     (case annset_id of
        None \<Rightarrow> None
      | Some sid \<Rightarrow>
          if ENFORCE_ANNSET then
            (let annset_from_ann = annset_ref js in
             if annset_from_ann = PNone then Some (WrongSet aid annset_from_ann sid)
             else
               (case py_int annset_from_ann of
                  Inl e \<Rightarrow> Some (GetFailed aid e)
                | Inr s \<Rightarrow> if s \<noteq> sid then Some (WrongSet aid annset_from_ann sid) else None))
          else None)"

definition fetch_one ::
  "(int \<Rightarrow> exn + pyval) \<Rightarrow> int \<Rightarrow> int option \<Rightarrow> string list \<Rightarrow> int \<Rightarrow> diag + pyval list" where
  "fetch_one get media_id annset_id ann_fields aid =
     (case get aid of
        Inl e \<Rightarrow> Inl (GetFailed aid e)
      | Inr js \<Rightarrow>
          if \<not> is_dict js \<or> dict_get js ''id'' = PNone then Inl (NotFound aid)
          else
            (let media_from_ann = media_ref js in
             if media_from_ann = PNone then Inl (WrongMedia aid media_from_ann media_id)
             else
               (case py_int media_from_ann of
                  Inl e \<Rightarrow> Inl (GetFailed aid e)
                | Inr m \<Rightarrow>
                    if m \<noteq> media_id then Inl (WrongMedia aid media_from_ann media_id)
                    else
                      (case annset_stage js annset_id aid of
                         Some d \<Rightarrow> Inl d
                       | None \<Rightarrow> Inr (project js ann_fields)))))"

text \<open>The loop over \<^verbatim>\<open>annotation_ids\<close>: the rows appended and the warnings printed, both
  in the order of the identifiers.\<close>

fun fetch_rows ::
  "(int \<Rightarrow> exn + pyval) \<Rightarrow> int \<Rightarrow> int option \<Rightarrow> string list \<Rightarrow> int list
     \<Rightarrow> pyval list list \<times> diag list" where
  "fetch_rows get media_id annset_id ann_fields [] = ([], [])"
| "fetch_rows get media_id annset_id ann_fields (aid # aids) =
     (let (rws, log) = fetch_rows get media_id annset_id ann_fields aids in
      case fetch_one get media_id annset_id ann_fields aid of
        Inr row \<Rightarrow> (row # rws, log)
      | Inl d \<Rightarrow> (rws, d # log))"

definition fetch_annotations_by_ids_for_media_via_get ::
  "(int \<Rightarrow> exn + pyval) \<Rightarrow> int \<Rightarrow> int list \<Rightarrow> int option \<Rightarrow> string list
     \<Rightarrow> pyval table \<times> diag list" where
  "fetch_annotations_by_ids_for_media_via_get get media_id annotation_ids annset_id ann_fields =
     (let (rws, log) = fetch_rows get media_id annset_id ann_fields annotation_ids in
      if rws = [] then (\<lparr>columns = ann_fields, rows = []\<rparr>, log)
      else (\<lparr>columns = ann_fields, rows = rws\<rparr>, log))"

text \<open>
  The three stages of the contract, for the record \<open>js\<close> of an annotation: it is
  present, it is on the media \<open>m\<close>, it is in the set asked for. \<open>accepted\<close> joins them
  for the identifier \<open>aid\<close>.
\<close>

definition present :: "pyval \<Rightarrow> bool" where
  "present js = (is_dict js \<and> dict_get js ''id'' \<noteq> PNone)"

definition on_media :: "pyval \<Rightarrow> int \<Rightarrow> bool" where
  "on_media js m = (py_int (media_ref js) = Inr m)"

definition in_annset :: "pyval \<Rightarrow> int option \<Rightarrow> bool" where
  "in_annset js annset_id =
     (case annset_id of
        None \<Rightarrow> True
      | Some sid \<Rightarrow> ENFORCE_ANNSET \<longrightarrow> py_int (annset_ref js) = Inr sid)"

definition accepted :: "(int \<Rightarrow> exn + pyval) \<Rightarrow> int \<Rightarrow> int option \<Rightarrow> int \<Rightarrow> bool" where
  "accepted get media_id annset_id aid =
     (case get aid of
        Inl e \<Rightarrow> False
      | Inr js \<Rightarrow> present js \<and> on_media js media_id \<and> in_annset js annset_id)"

text \<open>A remote with two annotations: 1 on media 100 in set 7, 2 on media 200 in set 7.\<close>

definition ann_A :: pyval where
  "ann_A = PDict [(''id'', PInt 1), (''annotation_set_id'', PInt 7),
                  (''point'', PDict [(''x'', PInt 3), (''media'', PDict [(''id'', PInt 100)])])]"

definition ann_B :: pyval where
  "ann_B = PDict [(''id'', PInt 2), (''annotation_set_id'', PInt 7),
                  (''point'', PDict [(''x'', PInt 4), (''media'', PDict [(''id'', PInt 200)])])]"

definition get_AB :: "int \<Rightarrow> exn + pyval" where
  "get_AB aid = (if aid = 1 then Inr ann_A else if aid = 2 then Inr ann_B
                 else Inl (Failure ''not found''))"

section \<open>Schema-Tolerant Exporter\<close>

text \<open>
  The requests the scripts build with the client library, as data: the endpoint, the
  \<^verbatim>\<open>include_columns\<close> argument (\<open>None\<close> when it is not passed), \<^verbatim>\<open>limit\<close> and
  \<^verbatim>\<open>offset\<close>, the \<^verbatim>\<open>.filter(field, op, value)\<close> calls, the \<^verbatim>\<open>.file_op(name, module=...)\<close>
  calls and the \<^verbatim>\<open>.template(...)\<close>.
\<close>

datatype resource =
    MediaCollectionExport int
  | AnnotationSetExport int
  | AnnotationExport

record request =
  resource :: resource
  include_columns :: "string list option"
  paging :: "(int \<times> int) option"
  filters :: "(string \<times> string \<times> int) list"
  file_ops :: "(string \<times> string) list"
  template :: string

text \<open>
  The remote service is the parameter \<open>execute\<close>, from a request to an exception or a
  reply. Of a reply the scripts read \<^verbatim>\<open>pd.read_csv(io.StringIO(r.text))\<close> and
  \<^verbatim>\<open>r.json()\<close>; each may raise. \<^verbatim>\<open>pd.json_normalize\<close> is the parameter \<open>json_normalize\<close>,
  and the order in which \<^verbatim>\<open>list(set(...))\<close> lists a set is the parameter \<open>enum_set\<close>.
  Every exporter returns its result together with the requests it has sent, in order.
\<close>

record 'c reply =
  csv :: "exn + 'c table"
  body :: "exn + pyval"

definition read_csv :: "(request \<Rightarrow> exn + 'c reply) \<Rightarrow> request \<Rightarrow> exn + 'c table" where
  "read_csv execute req = (case execute req of Inl e \<Rightarrow> Inl e | Inr r \<Rightarrow> csv r)"

text \<open>\<^verbatim>\<open>js = req.execute().json(); recs = js.get("objects", js); pd.json_normalize(recs)\<close>.
  A document that is not a dict has no \<^verbatim>\<open>get\<close>.\<close>

definition objects_or_self :: "pyval \<Rightarrow> exn + pyval" where
  "objects_or_self js =
     (case js of
        PDict kvs \<Rightarrow> (case map_of kvs ''objects'' of Some v \<Rightarrow> Inr v | None \<Rightarrow> Inr js)
      | _ \<Rightarrow> Inl AttributeError)"

definition read_json ::
  "(pyval \<Rightarrow> exn + 'c table) \<Rightarrow> (request \<Rightarrow> exn + 'c reply) \<Rightarrow> request \<Rightarrow> exn + 'c table" where
  "read_json json_normalize execute req =
     (case execute req of
        Inl e \<Rightarrow> Inl e
      | Inr r \<Rightarrow>
          (case body r of
             Inl e \<Rightarrow> Inl e
           | Inr js \<Rightarrow>
               (case objects_or_self js of
                  Inl e \<Rightarrow> Inl e
                | Inr recs \<Rightarrow> json_normalize recs)))"

text \<open>\<^verbatim>\<open>df[cols]\<close> for labels that are all columns of \<open>df\<close>.\<close>

definition select :: "'c table \<Rightarrow> string list \<Rightarrow> 'c table" where
  "select t cols =
     \<lparr>columns = cols, rows = map (\<lambda>r. map (\<lambda>c. r ! position c (columns t)) cols) (rows t)\<rparr>"

definition json_normalize_op :: "(string \<times> string) list" where
  "json_normalize_op = [(''json_normalize'', ''pandas'')]"

definition export_media_collection_csv ::
  "(string list \<Rightarrow> string list) \<Rightarrow> (pyval \<Rightarrow> exn + 'c table) \<Rightarrow> (request \<Rightarrow> exn + 'c reply)
     \<Rightarrow> int \<Rightarrow> string list option \<Rightarrow> (exn + 'c table) \<times> request list" where
  "export_media_collection_csv enum_set json_normalize execute collection_id include_cols =
     (let include = enum_set ((case include_cols of None \<Rightarrow> [] | Some cs \<Rightarrow> cs)
                                @ [''id'', ''path_best'']);
          preferred = \<lparr>resource = MediaCollectionExport collection_id,
                       include_columns = Some include, paging = None, filters = [],
                       file_ops = json_normalize_op, template = ''dataframe.csv''\<rparr>
      in case read_csv execute preferred of
           Inr df \<Rightarrow> (Inr df, [preferred])
         | Inl e \<Rightarrow>
             (let fallback = \<lparr>resource = MediaCollectionExport collection_id,
                               include_columns = Some include, paging = None, filters = [],
                               file_ops = [], template = ''json''\<rparr>
              in case read_json json_normalize execute fallback of
                   Inl e' \<Rightarrow> (Inl e', [preferred, fallback])
                 | Inr df \<Rightarrow>
                     (let keep = filter (\<lambda>c. c \<in> set (columns df)) include
                      in (Inr (if keep \<noteq> [] then select df keep else df),
                          [preferred, fallback]))))"

definition export_annotation_set_csv ::
  "(request \<Rightarrow> exn + 'c reply) \<Rightarrow> int \<Rightarrow> string list option
     \<Rightarrow> (exn + 'c table) \<times> request list" where
  "export_annotation_set_csv execute annset_id include_cols =
     (let preferred = \<lparr>resource = AnnotationSetExport annset_id,
                       include_columns = Some (case include_cols of None \<Rightarrow> [] | Some cs \<Rightarrow> cs),
                       paging = None, filters = [],
                       file_ops = json_normalize_op, template = ''dataframe.csv''\<rparr>
      in case read_csv execute preferred of
           Inr df \<Rightarrow> (Inr df, [preferred])
         | Inl e \<Rightarrow>
             (let retry = \<lparr>resource = AnnotationSetExport annset_id,
                            include_columns = None, paging = None, filters = [],
                            file_ops = json_normalize_op, template = ''dataframe.csv''\<rparr>
              in case read_csv execute retry of
                   Inl e' \<Rightarrow> (Inl e', [preferred, retry])
                 | Inr df \<Rightarrow>
                     (case include_cols of
                        None \<Rightarrow> (Inr df, [preferred, retry])
                      | Some cs \<Rightarrow>
                          if cs \<noteq> [] then
                            (let cols = filter (\<lambda>c. c \<in> set (columns df)) cs
                             in (Inr (if cols \<noteq> [] then select df cols else df),
                                 [preferred, retry]))
                          else (Inr df, [preferred, retry]))))"

subsection \<open>All annotations of one media\<close>

text \<open>
  \<^verbatim>\<open>export_all_annotations_for_media\<close>. The request carries the optional filter on the
  annotation set and the equality filter on \<open>media_field\<close>. The local filter after a
  reply is \<open>hard_filter\<close>: \<^verbatim>\<open>df[to_numeric(df[col]).astype("Int64") == int(media_id)]\<close>,
  where a comparison with \<^verbatim>\<open><NA>\<close> selects no row. It sits inside the \<^verbatim>\<open>try\<close>, so an
  exception of the detector or of the cast ends the attempt like a failed request.
\<close>

definition media_fields :: "string list" where
  "media_fields = [''point.media.id'', ''point.media_id'']"

definition annotation_request ::
  "string list \<Rightarrow> int option \<Rightarrow> int \<Rightarrow> (string \<times> string) list \<Rightarrow> string \<Rightarrow> string \<Rightarrow> request" where
  "annotation_request ann_fields annset_id media_id ops tmpl media_field =
     \<lparr>resource = AnnotationExport,
      include_columns = Some ann_fields,
      paging = Some (200000, 0),
      filters = (case annset_id of None \<Rightarrow> [] | Some s \<Rightarrow> [(''annotation_set_id'', ''eq'', s)])
                @ [(media_field, ''eq'', media_id)],
      file_ops = ops,
      template = tmpl\<rparr>"

definition hard_filter :: "('c \<Rightarrow> exn + int option) \<Rightarrow> int \<Rightarrow> 'c table \<Rightarrow> exn + 'c table" where
  "hard_filter coerce media_id df =
     (if \<not> empty_df df then
        (case detect_ann_media_col (columns df) of
           Inl e \<Rightarrow> Inl e
         | Inr col \<Rightarrow>
             (case getcol df col of
                Inl e \<Rightarrow> Inl e
              | Inr series \<Rightarrow>
                  (case to_Int64 coerce series of
                     Inl e \<Rightarrow> Inl e
                   | Inr mids \<Rightarrow> Inr (mask df (map (\<lambda>m. m = Some media_id) mids)))))
      else Inr df)"

definition attempt_csv ::
  "('c \<Rightarrow> exn + int option) \<Rightarrow> (request \<Rightarrow> exn + 'c reply) \<Rightarrow> int \<Rightarrow> int option
     \<Rightarrow> string list \<Rightarrow> string \<Rightarrow> exn + 'c table" where
  "attempt_csv coerce execute media_id annset_id ann_fields media_field =
     (case read_csv execute
             (annotation_request ann_fields annset_id media_id json_normalize_op
                ''dataframe.csv'' media_field) of
        Inl e \<Rightarrow> Inl e
      | Inr df \<Rightarrow> hard_filter coerce media_id df)"

definition attempt_json ::
  "('c \<Rightarrow> exn + int option) \<Rightarrow> (pyval \<Rightarrow> exn + 'c table) \<Rightarrow> (request \<Rightarrow> exn + 'c reply)
     \<Rightarrow> int \<Rightarrow> int option \<Rightarrow> string list \<Rightarrow> string \<Rightarrow> exn + 'c table" where
  "attempt_json coerce json_normalize execute media_id annset_id ann_fields media_field =
     (case read_json json_normalize execute
             (annotation_request ann_fields annset_id media_id [] ''json'' media_field) of
        Inl e \<Rightarrow> Inl e
      | Inr df \<Rightarrow> hard_filter coerce media_id df)"

text \<open>\<^verbatim>\<open>for x in xs: try: return f(x) except Exception: continue\<close>: the first result that
  is not an exception, and the elements tried.\<close>

fun first_ok :: "('a \<Rightarrow> exn + 'b) \<Rightarrow> 'a list \<Rightarrow> 'b option \<times> 'a list" where
  "first_ok f [] = (None, [])"
| "first_ok f (x # xs) =
     (case f x of
        Inr y \<Rightarrow> (Some y, [x])
      | Inl e \<Rightarrow> (let (res, tried) = first_ok f xs in (res, x # tried)))"

definition export_all_annotations_for_media ::
  "('c \<Rightarrow> exn + int option) \<Rightarrow> (pyval \<Rightarrow> exn + 'c table) \<Rightarrow> (request \<Rightarrow> exn + 'c reply)
     \<Rightarrow> int \<Rightarrow> int option \<Rightarrow> string list \<Rightarrow> 'c table \<times> request list" where
  "export_all_annotations_for_media coerce json_normalize execute media_id annset_id ann_fields =
     (let (res, tried) =
            first_ok (attempt_csv coerce execute media_id annset_id ann_fields) media_fields;
          sent = map (annotation_request ann_fields annset_id media_id json_normalize_op
                        ''dataframe.csv'') tried
      in case res of
           Some df \<Rightarrow> (df, sent)
         | None \<Rightarrow>
             (let (res', tried') =
                    first_ok (attempt_json coerce json_normalize execute media_id annset_id ann_fields)
                      media_fields;
                  sent' = map (annotation_request ann_fields annset_id media_id [] ''json'') tried'
              in case res' of
                   Some df \<Rightarrow> (df, sent @ sent')
                 | None \<Rightarrow> (\<lparr>columns = ann_fields, rows = []\<rparr>, sent @ sent')))"

text \<open>The four attempts of \<^verbatim>\<open>export_all_annotations_for_media\<close>, in the order of the
  source: the two candidate paths on the server-side flattening, then on raw JSON.\<close>

definition attempts ::
  "('c \<Rightarrow> exn + int option) \<Rightarrow> (pyval \<Rightarrow> exn + 'c table) \<Rightarrow> (request \<Rightarrow> exn + 'c reply)
     \<Rightarrow> int \<Rightarrow> int option \<Rightarrow> string list \<Rightarrow> (exn + 'c table) list" where
  "attempts coerce json_normalize execute media_id annset_id ann_fields =
     [attempt_csv coerce execute media_id annset_id ann_fields ''point.media.id'',
      attempt_csv coerce execute media_id annset_id ann_fields ''point.media_id'',
      attempt_json coerce json_normalize execute media_id annset_id ann_fields ''point.media.id'',
      attempt_json coerce json_normalize execute media_id annset_id ann_fields ''point.media_id'']"

subsection \<open>The requests and the column choice, named\<close>

text \<open>
  The requests of the two set exporters: the preferred one, the raw JSON one of the
  media collection export, and the second one of the annotation set export. \<open>requested\<close>
  is \<^verbatim>\<open>include_columns or []\<close>, and \<open>keep_present\<close> keeps the requested columns that the
  table has, or the whole table when it has none of them.
\<close>

definition requested :: "string list option \<Rightarrow> string list" where
  "requested include_cols = (case include_cols of None \<Rightarrow> [] | Some cs \<Rightarrow> cs)"

definition media_preferred :: "int \<Rightarrow> string list \<Rightarrow> request" where
  "media_preferred collection_id include =
     \<lparr>resource = MediaCollectionExport collection_id, include_columns = Some include,
      paging = None, filters = [], file_ops = [(''json_normalize'', ''pandas'')],
      template = ''dataframe.csv''\<rparr>"

definition media_raw_json :: "int \<Rightarrow> string list \<Rightarrow> request" where
  "media_raw_json collection_id include =
     \<lparr>resource = MediaCollectionExport collection_id, include_columns = Some include,
      paging = None, filters = [], file_ops = [], template = ''json''\<rparr>"

definition annset_preferred :: "int \<Rightarrow> string list \<Rightarrow> request" where
  "annset_preferred annset_id include =
     \<lparr>resource = AnnotationSetExport annset_id, include_columns = Some include,
      paging = None, filters = [], file_ops = [(''json_normalize'', ''pandas'')],
      template = ''dataframe.csv''\<rparr>"

definition annset_retry :: "int \<Rightarrow> request" where
  "annset_retry annset_id =
     \<lparr>resource = AnnotationSetExport annset_id, include_columns = None,
      paging = None, filters = [], file_ops = [(''json_normalize'', ''pandas'')],
      template = ''dataframe.csv''\<rparr>"

definition keep_present :: "'c table \<Rightarrow> string list \<Rightarrow> 'c table" where
  "keep_present df cols =
     (if \<exists>c\<in>set cols. c \<in> set (columns df)
      then select df (filter (\<lambda>c. c \<in> set (columns df)) cols) else df)"

subsection \<open>Example remotes\<close>

text \<open>A remote that answers every request with one annotation row that has no media
  column, as a table and as JSON.\<close>

definition label_table :: "pyval table" where
  "label_table = \<lparr>columns = [''id'', ''label.name''], rows = [[PInt 1, PStr ''fish'']]\<rparr>"

definition label_json :: pyval where
  "label_json = PDict [(''objects'',
     PList [PDict [(''id'', PInt 1), (''label'', PDict [(''name'', PStr ''fish'')])]])]"

definition execute_labels :: "request \<Rightarrow> exn + pyval reply" where
  "execute_labels req = Inr \<lparr>csv = Inr label_table, body = Inr label_json\<rparr>"

definition normalize_labels :: "pyval \<Rightarrow> exn + pyval table" where
  "normalize_labels recs = Inr label_table"

text \<open>A remote that rejects every request with a column list, serves the server-side
  flattening without one, and has no JSON template.\<close>

definition full_table :: "pyval table" where
  "full_table = \<lparr>columns = [''id'', ''point.media.id'', ''label.name''],
                 rows = [[PInt 1, PInt 100, PStr ''fish'']]\<rparr>"

definition execute_no_columns :: "request \<Rightarrow> exn + pyval reply" where
  "execute_no_columns req =
     (if include_columns req \<noteq> None then Inl (Failure ''columns not supported'')
      else if template req = ''json'' then Inl (Failure ''no such template'')
      else Inr \<lparr>csv = Inr full_table, body = Inl ValueError\<rparr>)"

text \<open>A remote that ignores the equality filter: it answers every request with the
  annotations of the media 100 and 200.\<close>

definition unfiltered_table :: "pyval table" where
  "unfiltered_table = \<lparr>columns = [''id'', ''point.media.id''],
                       rows = [[PInt 1, PInt 100], [PInt 2, PInt 200], [PInt 3, PNaN]]\<rparr>"

definition execute_unfiltered :: "request \<Rightarrow> exn + pyval reply" where
  "execute_unfiltered req = Inr \<lparr>csv = Inr unfiltered_table, body = Inl ValueError\<rparr>"

text \<open>A remote without the server-side flattening: only the JSON template answers, with
  one media record.\<close>

definition media_json :: pyval where
  "media_json = PDict [(''objects'',
     PList [PDict [(''id'', PInt 5), (''key'', PStr ''img5''),
                   (''path_best'', PStr ''http://host/img5.jpg'')]])]"

definition media_table :: "pyval table" where
  "media_table = \<lparr>columns = [''id'', ''key'', ''path_best''],
                  rows = [[PInt 5, PStr ''img5'', PStr ''http://host/img5.jpg'']]\<rparr>"

definition execute_json_only :: "request \<Rightarrow> exn + pyval reply" where
  "execute_json_only req =
     (if template req = ''json'' then Inr \<lparr>csv = Inl (Failure ''not a table''), body = Inr media_json\<rparr>
      else Inl (Failure ''no such template''))"

definition normalize_media :: "pyval \<Rightarrow> exn + pyval table" where
  "normalize_media recs = Inr media_table"

text \<open>A remote that knows the field \<^verbatim>\<open>point.media_id\<close> only, and ignores the filter on it.\<close>

definition execute_media_id_only :: "request \<Rightarrow> exn + pyval reply" where
  "execute_media_id_only req =
     (if ''point.media_id'' \<in> set (map fst (filters req))
      then Inr \<lparr>csv = Inr unfiltered_table, body = Inl ValueError\<rparr>
      else Inl (Failure ''unknown field''))"

text \<open>A remote that answers every request with a table of no rows.\<close>

definition no_rows_table :: "pyval table" where
  "no_rows_table = \<lparr>columns = [''id'', ''point.media.id''], rows = []\<rparr>"

definition execute_no_rows :: "request \<Rightarrow> exn + pyval reply" where
  "execute_no_rows req = Inr \<lparr>csv = Inr no_rows_table, body = Inl ValueError\<rparr>"

section \<open>Bulk Asset Downloader\<close>

text \<open>
  \<^verbatim>\<open>str(x)\<close>. A string is itself and NaN prints as \<^verbatim>\<open>nan\<close>; the text of numbers and
  containers is the parameter \<open>repr\<close>.
\<close>

fun py_str :: "(pyval \<Rightarrow> string) \<Rightarrow> pyval \<Rightarrow> string" where
  "py_str repr (PStr s) = s"
| "py_str repr PNaN = ''nan''"
| "py_str repr PNone = ''None''"
| "py_str repr (PBool b) = (if b then ''True'' else ''False'')"
| "py_str repr v = repr v"

text \<open>\<^verbatim>\<open>a or b\<close>.\<close>

definition py_or :: "pyval \<Rightarrow> pyval \<Rightarrow> pyval" where
  "py_or a b = (if truthy a then a else b)"

text \<open>\<^verbatim>\<open>row.get(col, default)\<close> and \<^verbatim>\<open>row[col]\<close> for a row of the table \<open>t\<close>.\<close>

definition row_get :: "pyval table \<Rightarrow> pyval list \<Rightarrow> string \<Rightarrow> pyval \<Rightarrow> pyval" where
  "row_get t r col dflt =
     (if col \<in> set (columns t) then r ! position col (columns t) else dflt)"

definition row_item :: "pyval table \<Rightarrow> pyval list \<Rightarrow> string \<Rightarrow> exn + pyval" where
  "row_item t r col =
     (if col \<in> set (columns t) then Inr (r ! position col (columns t)) else Inl KeyError)"

text \<open>\<^verbatim>\<open>url = str(row.get(url_col, "") or "")\<close>.\<close>

definition row_url :: "(pyval \<Rightarrow> string) \<Rightarrow> pyval table \<Rightarrow> string \<Rightarrow> pyval list \<Rightarrow> string" where
  "row_url repr t url_col r = py_str repr (py_or (row_get t r url_col (PStr '''')) (PStr ''''))"

text \<open>
  The first loop of \<^verbatim>\<open>download_images_from_export\<close>: the pairs handed to
  \<^verbatim>\<open>ex.submit(_one, mid, url)\<close>, in row order. A row whose \<open>url\<close> is the empty string is
  passed over; an exception of \<^verbatim>\<open>int(row[id_col])\<close> leaves the function.
\<close>

fun schedule ::
  "(pyval \<Rightarrow> string) \<Rightarrow> pyval table \<Rightarrow> string \<Rightarrow> string \<Rightarrow> pyval list list
     \<Rightarrow> exn + (int \<times> string) list" where
  "schedule repr t url_col id_col [] = Inr []"
| "schedule repr t url_col id_col (r # rs) =
     (let url = row_url repr t url_col r in
      if url = [] then schedule repr t url_col id_col rs
      else
        (case (case row_item t r id_col of Inl e \<Rightarrow> Inl e | Inr v \<Rightarrow> py_int v) of
           Inl e \<Rightarrow> Inl e
         | Inr mid \<Rightarrow>
             (case schedule repr t url_col id_col rs of
                Inl e \<Rightarrow> Inl e
              | Inr tasks \<Rightarrow> Inr ((mid, url) # tasks))))"

text \<open>
  \<^verbatim>\<open>_one(mid, url)\<close>. The body of its \<^verbatim>\<open>try\<close> (fetching the pixels, naming the file,
  writing it) is the parameter \<open>save\<close>, which gives the path written or the exception
  caught. The result is the pair returned and the warning printed, if any.
\<close>

definition one_item ::
  "(int \<Rightarrow> string \<Rightarrow> exn + 'p) \<Rightarrow> int \<times> string \<Rightarrow> (int \<times> 'p option) \<times> (int \<times> exn) list" where
  "one_item save task =
     (case save (fst task) (snd task) of
        Inr p \<Rightarrow> ((fst task, Some p), [])
      | Inl e \<Rightarrow> ((fst task, None), [(fst task, e)]))"

text \<open>The second loop: \<^verbatim>\<open>if p: saved[mid] = p\<close> over the results as they complete. A
  path is never false.\<close>

fun collect :: "(int \<times> 'p option) list \<Rightarrow> (int \<rightharpoonup> 'p) \<Rightarrow> (int \<rightharpoonup> 'p)" where
  "collect [] saved = saved"
| "collect ((mid, p) # rest) saved =
     collect rest (case p of Some path \<Rightarrow> saved(mid \<mapsto> path) | None \<Rightarrow> saved)"

text \<open>
  The whole call. The worker pool completes the tasks in some order: \<open>completion\<close>
  rearranges the submitted tasks into it. The result is the mapping returned and the
  warnings printed. The import of \<^verbatim>\<open>cv2\<close> and \<^verbatim>\<open>out_dir.mkdir\<close>, which come before the
  loops, are taken to succeed.
\<close>

definition download_images_from_export ::
  "(pyval \<Rightarrow> string) \<Rightarrow> (int \<Rightarrow> string \<Rightarrow> exn + 'p)
     \<Rightarrow> ((int \<times> string) list \<Rightarrow> (int \<times> string) list)
     \<Rightarrow> pyval table \<Rightarrow> string \<Rightarrow> string \<Rightarrow> exn + (int \<rightharpoonup> 'p) \<times> (int \<times> exn) list" where
  "download_images_from_export repr save completion media_df url_col id_col =
     (case schedule repr media_df url_col id_col (rows media_df) of
        Inl e \<Rightarrow> Inl e
      | Inr tasks \<Rightarrow>
          (let done = map (one_item save) (completion tasks)
           in Inr (collect (map fst done) Map.empty, concat (map snd done))))"

text \<open>A media table as \<^verbatim>\<open>read_csv\<close> gives it when the second record has no URL, and a
  \<open>save\<close> that fails on what is not a URL.\<close>

definition media_missing_url :: "pyval table" where
  "media_missing_url =
     \<lparr>columns = [''id'', ''path_best''],
      rows = [[PInt 1, PStr ''http://host/a.jpg''], [PInt 2, PNaN]]\<rparr>"

definition save_http :: "int \<Rightarrow> string \<Rightarrow> exn + int \<times> string" where
  "save_http mid url =
     (if prefix ''http'' url then Inr (mid, url) else Inl (Failure ''invalid URL''))"

text \<open>A media table of three records, the second with a URL that cannot be fetched.\<close>

definition media_three :: "pyval table" where
  "media_three =
     \<lparr>columns = [''id'', ''path_best''],
      rows = [[PInt 1, PStr ''http://host/a.jpg''], [PInt 2, PStr ''ftp://host/b.jpg''],
              [PInt 3, PStr ''http://host/c.jpg'']]\<rparr>"

section \<open>Properties of the Join-Key Detector\<close>

lemma hd_filter_first:
  assumes "i < length xs" and "P (xs ! i)" and "\<forall>x\<in>set (take i xs). \<not> P x"
  shows "filter P xs \<noteq> [] \<and> hd (filter P xs) = xs ! i"
proof -
  have split: "xs = take i xs @ xs ! i # drop (Suc i) xs"
    using assms(1) by (rule id_take_nth_drop)
  have "filter P (take i xs) = []"
    using assms(3) by (simp add: filter_empty_conv)
  then have "filter P xs = xs ! i # filter P (drop (Suc i) xs)"
    using assms(2) by (subst split) simp
  then show ?thesis by simp
qed

lemma first_mention_first:
  "i < length cs \<Longrightarrow> mentions_media_id (cs ! i) \<Longrightarrow>
   \<forall>c\<in>set (take i cs). \<not> mentions_media_id c \<Longrightarrow> first_mention cs = Some (cs ! i)"
proof (induction cs arbitrary: i)
  case Nil
  then show ?case by simp
next
  case (Cons c cs)
  then show ?case by (cases i) auto
qed

lemma first_mention_None: "first_mention cs = None \<longleftrightarrow> (\<forall>c\<in>set cs. \<not> mentions_media_id c)"
  by (induction cs) auto

text \<open>
  Claim C4. The detector returns the first column, in column order, whose lower-cased
  name ends with one of the four suffixes; when no column does, the first column whose
  lower-cased name contains both \<^verbatim>\<open>media\<close> and \<^verbatim>\<open>id\<close>; when no column does
  either, it raises the error that carries the first 20 column names. The detector is
  a function of the column list, so two calls on one list agree.
\<close>

theorem detect_ann_media_col_contract:
  "(i < length cols \<and> ends_with_media_suffix (cols ! i) \<and>
      (\<forall>c\<in>set (take i cols). \<not> ends_with_media_suffix c)
      \<longrightarrow> detect_ann_media_col cols = Inr (cols ! i))
   \<and> ((\<forall>c\<in>set cols. \<not> ends_with_media_suffix c) \<and>
      k < length cols \<and> mentions_media_id (cols ! k) \<and>
      (\<forall>c\<in>set (take k cols). \<not> mentions_media_id c)
      \<longrightarrow> detect_ann_media_col cols = Inr (cols ! k))
   \<and> ((\<forall>c\<in>set cols. \<not> ends_with_media_suffix c \<and> \<not> mentions_media_id c)
      \<longrightarrow> detect_ann_media_col cols = Inl (NoMediaCol (take 20 cols)))"
proof (intro conjI impI)
  assume "i < length cols \<and> ends_with_media_suffix (cols ! i) \<and>
      (\<forall>c\<in>set (take i cols). \<not> ends_with_media_suffix c)"
  then have "filter ends_with_media_suffix cols \<noteq> [] \<and>
      hd (filter ends_with_media_suffix cols) = cols ! i"
    using hd_filter_first [of i cols ends_with_media_suffix] by blast
  then show "detect_ann_media_col cols = Inr (cols ! i)"
    by (simp add: detect_ann_media_col_def)
next
  assume h: "(\<forall>c\<in>set cols. \<not> ends_with_media_suffix c) \<and>
      k < length cols \<and> mentions_media_id (cols ! k) \<and>
      (\<forall>c\<in>set (take k cols). \<not> mentions_media_id c)"
  then have "filter ends_with_media_suffix cols = []"
    by (simp add: filter_empty_conv)
  moreover have "first_mention cols = Some (cols ! k)"
    using h first_mention_first by blast
  ultimately show "detect_ann_media_col cols = Inr (cols ! k)"
    by (simp add: detect_ann_media_col_def)
next
  assume h: "\<forall>c\<in>set cols. \<not> ends_with_media_suffix c \<and> \<not> mentions_media_id c"
  then have "filter ends_with_media_suffix cols = []"
    by (simp add: filter_empty_conv)
  moreover have "first_mention cols = None"
    using h by (simp add: first_mention_None)
  ultimately show "detect_ann_media_col cols = Inl (NoMediaCol (take 20 cols))"
    by (simp add: detect_ann_media_col_def)
qed

theorem detect_ann_media_col_contract_witness:
  "detect_ann_media_col [''other_media_id_ref'', ''Point.Media.ID'', ''media_id''] = Inr ''Point.Media.ID''
   \<and> detect_ann_media_col [''id'', ''Other_Media_Id_Ref'', ''my_media_ids''] = Inr ''Other_Media_Id_Ref''
   \<and> detect_ann_media_col [''id'', ''label.name''] = Inl (NoMediaCol [''id'', ''label.name''])"
proof -
  have a: "(1::nat) < length [''other_media_id_ref'', ''Point.Media.ID'', ''media_id''] \<and>
      ends_with_media_suffix ([''other_media_id_ref'', ''Point.Media.ID'', ''media_id''] ! 1) \<and>
      (\<forall>c\<in>set (take 1 [''other_media_id_ref'', ''Point.Media.ID'', ''media_id'']).
          \<not> ends_with_media_suffix c)"
    by code_simp
  have b: "(\<forall>c\<in>set [''id'', ''Other_Media_Id_Ref'', ''my_media_ids'']. \<not> ends_with_media_suffix c) \<and>
      (1::nat) < length [''id'', ''Other_Media_Id_Ref'', ''my_media_ids''] \<and>
      mentions_media_id ([''id'', ''Other_Media_Id_Ref'', ''my_media_ids''] ! 1) \<and>
      (\<forall>c\<in>set (take 1 [''id'', ''Other_Media_Id_Ref'', ''my_media_ids'']). \<not> mentions_media_id c)"
    by code_simp
  have c: "\<forall>c\<in>set [''id'', ''label.name'']. \<not> ends_with_media_suffix c \<and> \<not> mentions_media_id c"
    by code_simp
  have n1: "[''other_media_id_ref'', ''Point.Media.ID'', ''media_id''] ! 1 = ''Point.Media.ID''"
    by simp
  have n2: "[''id'', ''Other_Media_Id_Ref'', ''my_media_ids''] ! 1 = ''Other_Media_Id_Ref''"
    by simp
  have n3: "take 20 [''id'', ''label.name''] = [''id'', ''label.name'']"
    by simp
  from a detect_ann_media_col_contract
    [of 1 "[''other_media_id_ref'', ''Point.Media.ID'', ''media_id'']" 0]
  have r1: "detect_ann_media_col [''other_media_id_ref'', ''Point.Media.ID'', ''media_id'']
      = Inr ''Point.Media.ID''"
    unfolding n1 by blast
  from b detect_ann_media_col_contract
    [of 0 "[''id'', ''Other_Media_Id_Ref'', ''my_media_ids'']" 1]
  have r2: "detect_ann_media_col [''id'', ''Other_Media_Id_Ref'', ''my_media_ids'']
      = Inr ''Other_Media_Id_Ref''"
    unfolding n2 by blast
  from c detect_ann_media_col_contract [of 0 "[''id'', ''label.name'']" 0]
  have r3: "detect_ann_media_col [''id'', ''label.name''] = Inl (NoMediaCol [''id'', ''label.name''])"
    unfolding n3 by blast
  from r1 r2 r3 show ?thesis by blast
qed

section \<open>Properties of the Dotted-Path Projector\<close>

lemma descend_reaches: "reaches d parts v \<Longrightarrow> descend d parts dflt = v"
  by (induction rule: reaches.induct) simp_all

lemma descend_append:
  "reaches d ps cur \<Longrightarrow> descend d (ps @ rest) dflt = descend cur rest dflt"
  by (induction rule: reaches.induct) simp_all

lemma descend_stuck: "\<not> has_key cur q \<Longrightarrow> descend cur (q # qs) dflt = dflt"
  by (cases cur) (auto simp: has_key_def split: option.splits)

lemma reaches_or_stuck:
  "(\<exists>v. reaches d parts v) \<or>
   (\<exists>ps q qs cur. parts = ps @ q # qs \<and> reaches d ps cur \<and> \<not> has_key cur q)"
proof (induction parts arbitrary: d)
  case Nil
  show ?case using reaches_here by blast
next
  case (Cons part parts)
  show ?case
  proof (cases "has_key d part")
    case False
    have "part # parts = [] @ part # parts" by simp
    with False reaches_here show ?thesis by blast
  next
    case True
    then obtain kvs v where d: "d = PDict kvs" and v: "map_of kvs part = Some v"
      by (cases d) (auto simp: has_key_def)
    from Cons.IH [of v] show ?thesis
    proof
      assume "\<exists>r. reaches v parts r"
      then obtain r where "reaches v parts r" by blast
      with v d have "reaches d (part # parts) r" by (simp add: reaches_step)
      then show ?thesis by blast
    next
      assume "\<exists>ps q qs cur. parts = ps @ q # qs \<and> reaches v ps cur \<and> \<not> has_key cur q"
      then obtain ps q qs cur where
        p: "parts = ps @ q # qs" and r: "reaches v ps cur" and k: "\<not> has_key cur q"
        by blast
      from v d r have "reaches d (part # ps) cur" by (simp add: reaches_step)
      moreover from p have "part # parts = (part # ps) @ q # qs" by simp
      ultimately show ?thesis using k by blast
    qed
  qed
qed

text \<open>
  Claim C7. The projector descends the mapping one dot-separated component at a time
  and returns the value it arrives at; when some component is missing, or the value
  reached before it is not a mapping, it returns the default. One of the two always
  holds: \<open>get_by_dotted\<close> is a total function with a value for every input, it has no
  error result and no state.
\<close>

theorem get_by_dotted_contract:
  "(reaches d (split_dot dotted) v \<longrightarrow> get_by_dotted d dotted dflt = v)
   \<and> (split_dot dotted = ps @ q # qs \<and> reaches d ps cur \<and> \<not> has_key cur q
        \<longrightarrow> get_by_dotted d dotted dflt = dflt)
   \<and> ((\<exists>r. reaches d (split_dot dotted) r) \<or>
        (\<exists>ps' q' qs' cur'. split_dot dotted = ps' @ q' # qs' \<and> reaches d ps' cur' \<and>
            \<not> has_key cur' q'))"
proof (intro conjI impI)
  assume "reaches d (split_dot dotted) v"
  then show "get_by_dotted d dotted dflt = v"
    by (simp add: get_by_dotted_def descend_reaches)
next
  assume h: "split_dot dotted = ps @ q # qs \<and> reaches d ps cur \<and> \<not> has_key cur q"
  then have "descend d (ps @ q # qs) dflt = descend cur (q # qs) dflt"
    using descend_append [of d ps cur "q # qs" dflt] by blast
  moreover have "descend cur (q # qs) dflt = dflt"
    using h descend_stuck [of cur q qs dflt] by blast
  ultimately show "get_by_dotted d dotted dflt = dflt"
    using h by (simp only: get_by_dotted_def)
next
  show "(\<exists>r. reaches d (split_dot dotted) r) \<or>
        (\<exists>ps' q' qs' cur'. split_dot dotted = ps' @ q' # qs' \<and> reaches d ps' cur' \<and>
            \<not> has_key cur' q')"
    by (rule reaches_or_stuck)
qed

theorem get_by_dotted_contract_witness:
  "get_by_dotted (PDict [(''point'', PDict [(''media'', PDict [(''id'', PInt 7)])])])
       ''point.media.id'' (PStr '''') = PInt 7
   \<and> get_by_dotted (PDict [(''point'', PDict [(''media'', PInt 3)])])
       ''point.media.id'' (PStr '''') = PStr ''''"
proof -
  let ?m = "PDict [(''id'', PInt 7)]"
  let ?p = "PDict [(''media'', ?m)]"
  let ?d = "PDict [(''point'', ?p)]"
  let ?e = "PDict [(''point'', PDict [(''media'', PInt 3)])]"
  have s: "split_dot ''point.media.id'' = [''point'', ''media'', ''id'']"
    by code_simp
  have "reaches ?m [''id''] (PInt 7)"
    by (rule reaches_step [OF _ reaches_here]) simp
  then have "reaches ?p [''media'', ''id''] (PInt 7)"
    by (rule reaches_step [rotated]) simp
  then have "reaches ?d [''point'', ''media'', ''id''] (PInt 7)"
    by (rule reaches_step [rotated]) simp
  then have a: "reaches ?d (split_dot ''point.media.id'') (PInt 7)"
    by (simp only: s)
  have "reaches (PDict [(''media'', PInt 3)]) [''media''] (PInt 3)"
    by (rule reaches_step [OF _ reaches_here]) simp
  then have r: "reaches ?e [''point'', ''media''] (PInt 3)"
    by (rule reaches_step [rotated]) simp
  have k: "\<not> has_key (PInt 3) ''id''"
    by (simp add: has_key_def)
  have b: "split_dot ''point.media.id'' = [''point'', ''media''] @ ''id'' # [] \<and>
      reaches ?e [''point'', ''media''] (PInt 3) \<and> \<not> has_key (PInt 3) ''id''"
    using s r k by simp
  from a get_by_dotted_contract [of ?d "''point.media.id''" "PInt 7" "PStr ''''"]
  have r1: "get_by_dotted ?d ''point.media.id'' (PStr '''') = PInt 7"
    by blast
  from b get_by_dotted_contract
    [of ?e "''point.media.id''" _ "PStr ''''" "[''point'', ''media'']" "''id''" "[]" "PInt 3"]
  have r2: "get_by_dotted ?e ''point.media.id'' (PStr '''') = PStr ''''"
    by blast
  from r1 r2 show ?thesis by blast
qed

section \<open>Properties of the Referential Filter\<close>

lemma to_Int64_cells:
  "to_Int64 coerce (map f rs) = Inr ms \<Longrightarrow> \<forall>r\<in>set rs. \<exists>m. coerce (f r) = Inr m"
proof (induction rs arbitrary: ms)
  case Nil
  then show ?case by simp
next
  case (Cons r rs)
  then show ?case by (auto split: sum.splits)
qed

lemma to_Int64_mask:
  "to_Int64 coerce (map f rs) = Inr ms \<Longrightarrow>
   map fst (filter snd (zip rs (map (\<lambda>m. isin m ids) ms)))
     = filter (\<lambda>r. \<exists>n\<in>set ids. coerce (f r) = Inr (Some n)) rs"
proof (induction rs arbitrary: ms)
  case Nil
  then show ?case by simp
next
  case (Cons r rs)
  from Cons.prems obtain m ms' where
    m: "coerce (f r) = Inr m" and ms': "to_Int64 coerce (map f rs) = Inr ms'"
    and ms: "ms = m # ms'"
    by (auto split: sum.splits)
  have head: "isin m ids \<longleftrightarrow> (\<exists>n\<in>set ids. coerce (f r) = Inr (Some n))"
    using m by (cases m) (auto simp: isin_def)
  from Cons.IH [OF ms'] head show ?case
    by (simp add: ms)
qed

lemma post_filter_rows:
  assumes "detect_ann_media_col (columns ann_df) = Inr col"
    and "post_filter_ann_to_media_ids coerce ann_df media_ids = Inr out"
  shows "columns out = columns ann_df"
    and "rows out = filter (\<lambda>r. \<exists>n\<in>set media_ids. join_key coerce ann_df col r = Inr (Some n))
            (rows ann_df)"
    and "\<forall>r\<in>set (rows ann_df). \<exists>m. join_key coerce ann_df col r = Inr m"
proof -
  let ?f = "\<lambda>r. r ! position col (columns ann_df)"
  show "columns out = columns ann_df"
    using assms
    by (auto simp: post_filter_ann_to_media_ids_def mask_def Let_def
        split: if_splits sum.splits)
  show "rows out = filter (\<lambda>r. \<exists>n\<in>set media_ids. join_key coerce ann_df col r = Inr (Some n))
            (rows ann_df)"
  proof (cases "empty_df ann_df")
    case True
    with assms(1) have "rows ann_df = []"
      by (auto simp: empty_df_def detect_ann_media_col_def split: if_splits)
    moreover from True assms(2) have "out = ann_df"
      by (simp add: post_filter_ann_to_media_ids_def)
    ultimately show ?thesis by simp
  next
    case False
    with assms obtain mids where
      mids: "to_Int64 coerce (map ?f (rows ann_df)) = Inr mids"
      and out: "out = mask ann_df (map (\<lambda>m. isin m media_ids) mids)"
      by (auto simp: post_filter_ann_to_media_ids_def getcol_def Let_def
          split: if_splits sum.splits)
    from to_Int64_mask [OF mids] out show ?thesis
      by (simp add: mask_def join_key_def)
  qed
  show "\<forall>r\<in>set (rows ann_df). \<exists>m. join_key coerce ann_df col r = Inr m"
  proof (cases "empty_df ann_df")
    case True
    with assms(1) have "rows ann_df = []"
      by (auto simp: empty_df_def detect_ann_media_col_def split: if_splits)
    then show ?thesis by simp
  next
    case False
    with assms obtain mids where
      mids: "to_Int64 coerce (map ?f (rows ann_df)) = Inr mids"
      by (auto simp: post_filter_ann_to_media_ids_def getcol_def Let_def
          split: if_splits sum.splits)
    from to_Int64_cells [OF mids] show ?thesis
      by (simp add: join_key_def)
  qed
qed

text \<open>
  Claim C1. Let the Join-Key Detector choose the column \<open>col\<close> of a rectangular
  annotation table, and let the filter return the table \<open>out\<close>. Then \<open>out\<close> has the
  columns of the input and its rows are the rows of the input, in their order, whose
  join key reads as an integer of \<open>media_ids\<close>: every retained row has such a key, and
  every dropped row has a key that reads as \<^verbatim>\<open><NA>\<close> (absent or non-numeric) or as an
  integer outside \<open>media_ids\<close>.
\<close>

theorem post_filter_ann_to_media_ids_postcondition:
  assumes "wf_table ann_df"
    and "detect_ann_media_col (columns ann_df) = Inr col"
    and "post_filter_ann_to_media_ids coerce ann_df media_ids = Inr out"
  shows "columns out = columns ann_df
    \<and> rows out = filter (\<lambda>r. \<exists>n\<in>set media_ids. join_key coerce ann_df col r = Inr (Some n))
        (rows ann_df)
    \<and> (\<forall>r\<in>set (rows out). \<exists>n\<in>set media_ids. join_key coerce ann_df col r = Inr (Some n))
    \<and> (\<forall>r\<in>set (rows ann_df). r \<notin> set (rows out) \<longrightarrow>
          join_key coerce ann_df col r = Inr None \<or>
          (\<exists>n. join_key coerce ann_df col r = Inr (Some n) \<and> n \<notin> set media_ids))"
proof -
  note r = post_filter_rows [OF assms(2) assms(3)]
  have dropped: "join_key coerce ann_df col r = Inr None \<or>
      (\<exists>n. join_key coerce ann_df col r = Inr (Some n) \<and> n \<notin> set media_ids)"
    if "r \<in> set (rows ann_df)" and "r \<notin> set (rows out)" for r
  proof -
    from r(3) that(1) obtain m where m: "join_key coerce ann_df col r = Inr m" by blast
    from that r(2) have no: "\<not> (\<exists>n\<in>set media_ids. join_key coerce ann_df col r = Inr (Some n))"
      by simp
    show ?thesis
    proof (cases m)
      case None
      with m show ?thesis by simp
    next
      case (Some n)
      with m no show ?thesis by auto
    qed
  qed
  from r(1) r(2) dropped show ?thesis by auto
qed

theorem post_filter_ann_to_media_ids_postcondition_witness:
  "wf_table ann_example
   \<and> detect_ann_media_col (columns ann_example) = Inr ''point.media.id''
   \<and> rows (projr (post_filter_ann_to_media_ids coerce_cell ann_example [1, 2, 3]))
       = [[PInt 10, PStr ''1''], [PInt 11, PStr ''2'']]"
proof -
  let ?out = "\<lparr>columns = [''id'', ''point.media.id''],
      rows = [[PInt 10, PStr ''1''], [PInt 11, PStr ''2'']]\<rparr> :: pyval table"
  have w: "wf_table ann_example" by code_simp
  have d: "detect_ann_media_col (columns ann_example) = Inr ''point.media.id''" by code_simp
  have p: "post_filter_ann_to_media_ids coerce_cell ann_example [1, 2, 3] = Inr ?out"
    by code_simp
  from post_filter_ann_to_media_ids_postcondition [OF w d p]
  have "rows ?out = filter (\<lambda>r. \<exists>n\<in>set [1, 2, 3].
      join_key coerce_cell ann_example ''point.media.id'' r = Inr (Some n)) (rows ann_example)"
    by blast
  with w d p show ?thesis by simp
qed

section \<open>Properties of the Per-Identifier Resolver\<close>

lemma annset_stage_None: "annset_stage js annset_id aid = None \<longleftrightarrow> in_annset js annset_id"
  by (cases annset_id)
    (auto simp: annset_stage_def in_annset_def Let_def split: sum.splits)

lemma annset_stage_id: "annset_stage js annset_id aid = Some d \<Longrightarrow> diag_id d = aid"
  by (cases annset_id)
    (auto simp: annset_stage_def Let_def split: sum.splits if_splits)

lemma fetch_one_accepted:
  assumes "accepted get media_id annset_id aid"
  shows "fetch_one get media_id annset_id ann_fields aid
    = Inr (project (projr (get aid)) ann_fields)"
proof -
  from assms obtain js where js: "get aid = Inr js" and p: "present js"
    and m: "on_media js media_id" and s: "in_annset js annset_id"
    by (auto simp: accepted_def split: sum.splits)
  from m have m': "py_int (media_ref js) = Inr media_id" by (simp add: on_media_def)
  then have "media_ref js \<noteq> PNone" by auto
  moreover from s have "annset_stage js annset_id aid = None"
    by (simp add: annset_stage_None)
  ultimately show ?thesis
    using js p m' by (simp add: fetch_one_def present_def Let_def)
qed

lemma fetch_one_rejected:
  assumes "\<not> accepted get media_id annset_id aid"
  shows "\<exists>d. fetch_one get media_id annset_id ann_fields aid = Inl d \<and> diag_id d = aid"
proof (cases "get aid")
  case (Inl e)
  then show ?thesis by (simp add: fetch_one_def)
next
  case (Inr js)
  show ?thesis
  proof (cases "present js")
    case False
    with Inr show ?thesis by (auto simp: fetch_one_def present_def)
  next
    case p: True
    show ?thesis
    proof (cases "on_media js media_id")
      case False
      with Inr p show ?thesis
        by (auto simp: fetch_one_def present_def on_media_def Let_def split: sum.splits)
    next
      case m: True
      with Inr p assms have "\<not> in_annset js annset_id" by (simp add: accepted_def)
      then obtain d where d: "annset_stage js annset_id aid = Some d"
        using annset_stage_None [of js annset_id aid] by (cases "annset_stage js annset_id aid") auto
      from m have m': "py_int (media_ref js) = Inr media_id" by (simp add: on_media_def)
      then have "media_ref js \<noteq> PNone" by auto
      with Inr p m' d annset_stage_id [OF d] show ?thesis
        by (simp add: fetch_one_def present_def Let_def)
    qed
  qed
qed

lemma fetch_rows_filter:
  "fst (fetch_rows get media_id annset_id ann_fields aids)
   = map (\<lambda>aid. project (projr (get aid)) ann_fields)
       (filter (accepted get media_id annset_id) aids)"
proof (induction aids)
  case Nil
  show ?case by simp
next
  case (Cons aid aids)
  show ?case
  proof (cases "accepted get media_id annset_id aid")
    case True
    from fetch_one_accepted [OF True, of ann_fields] Cons.IH show ?thesis
      by (simp add: True split_beta)
  next
    case False
    from fetch_one_rejected [OF False, of ann_fields] obtain d where
      "fetch_one get media_id annset_id ann_fields aid = Inl d" by blast
    with Cons.IH show ?thesis
      by (simp add: False split_beta)
  qed
qed

lemma fetch_rows_log:
  "map diag_id (snd (fetch_rows get media_id annset_id ann_fields aids))
   = filter (\<lambda>aid. \<not> accepted get media_id annset_id aid) aids"
proof (induction aids)
  case Nil
  show ?case by simp
next
  case (Cons aid aids)
  show ?case
  proof (cases "accepted get media_id annset_id aid")
    case True
    from fetch_one_accepted [OF True, of ann_fields] Cons.IH show ?thesis
      by (simp add: True split_beta)
  next
    case False
    from fetch_one_rejected [OF False, of ann_fields] obtain d where
      "fetch_one get media_id annset_id ann_fields aid = Inl d" and "diag_id d = aid"
      by blast
    with Cons.IH show ?thesis
      by (simp add: False split_beta)
  qed
qed

lemma fetch_table_rows:
  "rows (fst (fetch_annotations_by_ids_for_media_via_get get media_id aids annset_id ann_fields))
   = fst (fetch_rows get media_id annset_id ann_fields aids)"
  by (simp add: fetch_annotations_by_ids_for_media_via_get_def split: prod.splits)

lemma fetch_table_log:
  "snd (fetch_annotations_by_ids_for_media_via_get get media_id aids annset_id ann_fields)
   = snd (fetch_rows get media_id annset_id ann_fields aids)"
  by (simp add: fetch_annotations_by_ids_for_media_via_get_def split: prod.splits)

lemma wrong_media_diag:
  assumes "get aid = Inr js" and "present js" and "py_int (media_ref js) = Inr m2"
    and "m2 \<noteq> media_id"
  shows "fetch_one get media_id annset_id ann_fields aid
    = Inl (WrongMedia aid (media_ref js) media_id)"
proof -
  from assms(3) have "media_ref js \<noteq> PNone" by auto
  with assms show ?thesis
    by (simp add: fetch_one_def present_def Let_def)
qed

text \<open>
  The claim C5 as the specification words it asks for the one row of A whenever A is on
  the target media and B is on another. The resolver has a third stage: with an
  annotation set asked for, A in another set is skipped too, and the result is empty.
\<close>

theorem resolver_one_row_counterexample:
  "get_AB 1 = Inr ann_A \<and> present ann_A \<and> on_media ann_A 100
   \<and> get_AB 2 = Inr ann_B \<and> present ann_B \<and> on_media ann_B 200
   \<and> rows (fst (fetch_annotations_by_ids_for_media_via_get get_AB 100 [1, 2] (Some 8)
        [''id'', ''point.media.id''])) = []
   \<and> project ann_A [''id'', ''point.media.id''] = [PInt 1, PInt 100]"
  by code_simp

text \<open>
  Claim C5, amended. For every remote, target media and list of identifiers, the rows
  of the result are the projections of the accepted identifiers, in the order asked
  for: an identifier is accepted when its request succeeds, its record is present, its
  media reference read by \<^verbatim>\<open>int\<close> is the target media, and, when an annotation set is
  asked for, its set reference is that set. Every other identifier adds one warning
  and no row, and the identifiers after it are still processed; a failed request is
  one of these cases. For the identifiers A, B with A accepted and B on another media, the result is the
  one row of A and the one warning that B is on the wrong media.
\<close>

theorem resolver_ownership_isolation:
  "rows (fst (fetch_annotations_by_ids_for_media_via_get get media_id aids annset_id ann_fields))
     = map (\<lambda>aid. project (projr (get aid)) ann_fields)
         (filter (accepted get media_id annset_id) aids)
   \<and> map diag_id
       (snd (fetch_annotations_by_ids_for_media_via_get get media_id aids annset_id ann_fields))
     = filter (\<lambda>aid. \<not> accepted get media_id annset_id aid) aids
   \<and> (accepted get media_id annset_id a \<and> get a = Inr jsA \<and>
      get b = Inr jsB \<and> present jsB \<and> py_int (media_ref jsB) = Inr m2 \<and> m2 \<noteq> media_id
      \<longrightarrow> fetch_annotations_by_ids_for_media_via_get get media_id [a, b] annset_id ann_fields
          = (\<lparr>columns = ann_fields, rows = [project jsA ann_fields]\<rparr>,
             [WrongMedia b (media_ref jsB) media_id]))"
proof (intro conjI impI)
  show "rows (fst (fetch_annotations_by_ids_for_media_via_get get media_id aids annset_id
        ann_fields))
     = map (\<lambda>aid. project (projr (get aid)) ann_fields)
         (filter (accepted get media_id annset_id) aids)"
    by (simp only: fetch_table_rows fetch_rows_filter)
next
  show "map diag_id
       (snd (fetch_annotations_by_ids_for_media_via_get get media_id aids annset_id ann_fields))
     = filter (\<lambda>aid. \<not> accepted get media_id annset_id aid) aids"
    by (simp only: fetch_table_log fetch_rows_log)
next
  assume h: "accepted get media_id annset_id a \<and> get a = Inr jsA \<and>
      get b = Inr jsB \<and> present jsB \<and> py_int (media_ref jsB) = Inr m2 \<and> m2 \<noteq> media_id"
  then have a: "fetch_one get media_id annset_id ann_fields a = Inr (project jsA ann_fields)"
    using fetch_one_accepted [of get media_id annset_id a ann_fields] by simp
  from h have b: "fetch_one get media_id annset_id ann_fields b
      = Inl (WrongMedia b (media_ref jsB) media_id)"
    using wrong_media_diag [of get b jsB m2 media_id annset_id ann_fields] by blast
  from a b show "fetch_annotations_by_ids_for_media_via_get get media_id [a, b] annset_id
        ann_fields
      = (\<lparr>columns = ann_fields, rows = [project jsA ann_fields]\<rparr>,
         [WrongMedia b (media_ref jsB) media_id])"
    by (simp add: fetch_annotations_by_ids_for_media_via_get_def)
qed

theorem resolver_ownership_isolation_witness:
  "accepted get_AB 100 None 1 \<and> \<not> accepted get_AB 100 None 2
   \<and> fetch_annotations_by_ids_for_media_via_get get_AB 100 [1, 2] None [''id'', ''point.media.id'']
     = (\<lparr>columns = [''id'', ''point.media.id''], rows = [[PInt 1, PInt 100]]\<rparr>,
        [WrongMedia 2 (PInt 200) 100])"
proof -
  have h: "accepted get_AB 100 None 1 \<and> get_AB 1 = Inr ann_A \<and>
      get_AB 2 = Inr ann_B \<and> present ann_B \<and> py_int (media_ref ann_B) = Inr 200 \<and>
      (200::int) \<noteq> 100"
    by code_simp
  have n: "\<not> accepted get_AB 100 None 2" by code_simp
  have p: "project ann_A [''id'', ''point.media.id''] = [PInt 1, PInt 100]" by code_simp
  have m: "media_ref ann_B = PInt 200" by code_simp
  from h resolver_ownership_isolation
    [of get_AB 100 "[]" None "[''id'', ''point.media.id'']" 1 ann_A 2 ann_B 200]
  have "fetch_annotations_by_ids_for_media_via_get get_AB 100 [1, 2] None
        [''id'', ''point.media.id'']
      = (\<lparr>columns = [''id'', ''point.media.id''],
          rows = [project ann_A [''id'', ''point.media.id'']]\<rparr>,
         [WrongMedia 2 (media_ref ann_B) 100])"
    by blast
  with h n p m show ?thesis by simp
qed

text \<open>
  Claim C8. The Referential Filter returns an empty annotation table as it is, for
  every list of media identifiers and without raising; the Per-Identifier Resolver
  given no identifier returns the table with the requested columns and no row, and
  prints nothing.
\<close>

theorem empty_input_stability:
  "(empty_df ann_df \<longrightarrow> post_filter_ann_to_media_ids coerce ann_df media_ids = Inr ann_df)
   \<and> fetch_annotations_by_ids_for_media_via_get get media_id [] annset_id ann_fields
       = (\<lparr>columns = ann_fields, rows = []\<rparr>, [])"
  by (simp add: post_filter_ann_to_media_ids_def fetch_annotations_by_ids_for_media_via_get_def)

theorem empty_input_stability_witness:
  "empty_df (\<lparr>columns = [''id'', ''point.media.id''], rows = []\<rparr> :: pyval table)
   \<and> post_filter_ann_to_media_ids coerce_cell
        \<lparr>columns = [''id'', ''point.media.id''], rows = []\<rparr> [1, 2, 3]
      = Inr \<lparr>columns = [''id'', ''point.media.id''], rows = []\<rparr>"
proof -
  have e: "empty_df (\<lparr>columns = [''id'', ''point.media.id''], rows = []\<rparr> :: pyval table)"
    by (simp add: empty_df_def)
  from e empty_input_stability
    [of "\<lparr>columns = [''id'', ''point.media.id''], rows = []\<rparr>" coerce_cell "[1, 2, 3]"]
  show ?thesis by blast
qed

section \<open>Properties of the Schema-Tolerant Exporter\<close>

lemma to_Int64_mask_eq:
  "to_Int64 coerce (map f rs) = Inr ms \<Longrightarrow>
   map fst (filter snd (zip rs (map (\<lambda>m. m = Some k) ms)))
     = filter (\<lambda>r. coerce (f r) = Inr (Some k)) rs"
proof (induction rs arbitrary: ms)
  case Nil
  then show ?case by simp
next
  case (Cons r rs)
  from Cons.prems obtain m ms' where
    m: "coerce (f r) = Inr m" and ms': "to_Int64 coerce (map f rs) = Inr ms'"
    and ms: "ms = m # ms'"
    by (auto split: sum.splits)
  from Cons.IH [OF ms'] m show ?case
    by (simp add: ms)
qed

lemma hard_filter_rows:
  assumes "hard_filter coerce media_id df = Inr t" and "\<not> empty_df t"
  shows "\<exists>col. detect_ann_media_col (columns t) = Inr col \<and>
    (\<forall>r\<in>set (rows t). join_key coerce t col r = Inr (Some media_id))"
proof (cases "empty_df df")
  case True
  with assms show ?thesis by (simp add: hard_filter_def)
next
  case False
  let ?f = "\<lambda>col r. r ! position col (columns df)"
  from False assms(1) obtain col mids where
    col: "detect_ann_media_col (columns df) = Inr col"
    and mids: "to_Int64 coerce (map (?f col) (rows df)) = Inr mids"
    and t: "t = mask df (map (\<lambda>m. m = Some media_id) mids)"
    by (auto simp: hard_filter_def getcol_def split: if_splits sum.splits)
  from t have c: "columns t = columns df" by (simp add: mask_def)
  from t to_Int64_mask_eq [OF mids, of media_id]
  have "rows t = filter (\<lambda>r. coerce (?f col r) = Inr (Some media_id)) (rows df)"
    by (simp add: mask_def)
  then have "\<forall>r\<in>set (rows t). join_key coerce t col r = Inr (Some media_id)"
    by (simp add: join_key_def c)
  with col c show ?thesis by simp
qed

lemma attempt_csv_rows:
  "attempt_csv coerce execute media_id annset_id ann_fields f = Inr t \<Longrightarrow> \<not> empty_df t \<Longrightarrow>
   \<exists>col. detect_ann_media_col (columns t) = Inr col \<and>
     (\<forall>r\<in>set (rows t). join_key coerce t col r = Inr (Some media_id))"
  by (auto simp: attempt_csv_def split: sum.splits dest: hard_filter_rows)

lemma attempt_json_rows:
  "attempt_json coerce json_normalize execute media_id annset_id ann_fields f = Inr t \<Longrightarrow>
   \<not> empty_df t \<Longrightarrow>
   \<exists>col. detect_ann_media_col (columns t) = Inr col \<and>
     (\<forall>r\<in>set (rows t). join_key coerce t col r = Inr (Some media_id))"
  by (auto simp: attempt_json_def split: sum.splits dest: hard_filter_rows)

lemma export_all_cases:
  "fst (export_all_annotations_for_media coerce json_normalize execute media_id annset_id
          ann_fields)
   = (case attempt_csv coerce execute media_id annset_id ann_fields ''point.media.id'' of
        Inr t \<Rightarrow> t
      | Inl e1 \<Rightarrow>
     (case attempt_csv coerce execute media_id annset_id ann_fields ''point.media_id'' of
        Inr t \<Rightarrow> t
      | Inl e2 \<Rightarrow>
     (case attempt_json coerce json_normalize execute media_id annset_id ann_fields
             ''point.media.id'' of
        Inr t \<Rightarrow> t
      | Inl e3 \<Rightarrow>
     (case attempt_json coerce json_normalize execute media_id annset_id ann_fields
             ''point.media_id'' of
        Inr t \<Rightarrow> t
      | Inl e4 \<Rightarrow> \<lparr>columns = ann_fields, rows = []\<rparr>))))"
  by (simp add: export_all_annotations_for_media_def media_fields_def split: sum.splits)

text \<open>
  Claim C3 as the specification words it asks both exports to fall back to raw JSON.
  On a remote that rejects a column list and has no JSON template, the annotation set
  export still returns a table: its second request is again the server-side
  flattening to \<^verbatim>\<open>dataframe.csv\<close>, without the column list, and no JSON is requested.
\<close>

theorem annotation_set_fallback_counterexample:
  "read_csv execute_no_columns (annset_preferred 17711 [''id'', ''label.name''])
     = Inl (Failure ''columns not supported'')
   \<and> fst (export_annotation_set_csv execute_no_columns 17711 (Some [''id'', ''label.name'']))
     = Inr \<lparr>columns = [''id'', ''label.name''], rows = [[PInt 1, PStr ''fish'']]\<rparr>
   \<and> map template
        (snd (export_annotation_set_csv execute_no_columns 17711 (Some [''id'', ''label.name''])))
     = [''dataframe.csv'', ''dataframe.csv'']
   \<and> map include_columns
        (snd (export_annotation_set_csv execute_no_columns 17711 (Some [''id'', ''label.name''])))
     = [Some [''id'', ''label.name''], None]"
  by code_simp

text \<open>
  Claim C3, amended. When the preferred request of the media collection export fails,
  the export sends one more request, for the raw JSON of the same collection with the
  same column list, flattens the reply locally and keeps the requested columns that
  are present. When the preferred request of the annotation set export fails, the
  export sends the server-side flattening request again for the same annotation set,
  without the column list, and keeps the requested columns that are present. Neither
  export sends a third request; a failure of the second one is the failure of the call.
\<close>

theorem exporter_fallbacks:
  "(read_csv execute
        (media_preferred collection_id (enum_set (requested include_cols @ [''id'', ''path_best'']))) = Inl e
      \<longrightarrow> export_media_collection_csv enum_set json_normalize execute collection_id include_cols
        = (case read_json json_normalize execute
                  (media_raw_json collection_id
                     (enum_set (requested include_cols @ [''id'', ''path_best'']))) of
             Inl e' \<Rightarrow> Inl e'
           | Inr df \<Rightarrow>
               Inr (keep_present df (enum_set (requested include_cols @ [''id'', ''path_best'']))),
           [media_preferred collection_id
              (enum_set (requested include_cols @ [''id'', ''path_best''])),
            media_raw_json collection_id
              (enum_set (requested include_cols @ [''id'', ''path_best'']))]))
   \<and> (read_csv execute (annset_preferred annset_id (requested include_cols)) = Inl e
      \<longrightarrow> export_annotation_set_csv execute annset_id include_cols
        = (case read_csv execute (annset_retry annset_id) of
             Inl e' \<Rightarrow> Inl e'
           | Inr df \<Rightarrow> Inr (keep_present df (requested include_cols)),
           [annset_preferred annset_id (requested include_cols), annset_retry annset_id]))"
proof (intro conjI impI)
  let ?inc = "enum_set (requested include_cols @ [''id'', ''path_best''])"
  have keep: "(if filter (\<lambda>c. c \<in> set (columns df)) cols \<noteq> []
        then select df (filter (\<lambda>c. c \<in> set (columns df)) cols) else df)
      = keep_present df cols" for df :: "'a table" and cols
    by (simp add: keep_present_def filter_empty_conv)
  assume "read_csv execute (media_preferred collection_id ?inc) = Inl e"
  then show "export_media_collection_csv enum_set json_normalize execute collection_id
        include_cols
      = (case read_json json_normalize execute (media_raw_json collection_id ?inc) of
           Inl e' \<Rightarrow> Inl e'
         | Inr df \<Rightarrow> Inr (keep_present df ?inc),
         [media_preferred collection_id ?inc, media_raw_json collection_id ?inc])"
    by (simp add: export_media_collection_csv_def media_preferred_def media_raw_json_def
        requested_def json_normalize_op_def Let_def keep split: sum.splits)
next
  have keep: "(if filter (\<lambda>c. c \<in> set (columns df)) cols \<noteq> []
        then select df (filter (\<lambda>c. c \<in> set (columns df)) cols) else df)
      = keep_present df cols" for df :: "'b table" and cols
    by (simp add: keep_present_def filter_empty_conv)
  have none: "keep_present df [] = df" for df :: "'b table"
    by (simp add: keep_present_def)
  assume "read_csv execute (annset_preferred annset_id (requested include_cols)) = Inl e"
  then show "export_annotation_set_csv execute annset_id include_cols
      = (case read_csv execute (annset_retry annset_id) of
           Inl e' \<Rightarrow> Inl e'
         | Inr df \<Rightarrow> Inr (keep_present df (requested include_cols)),
         [annset_preferred annset_id (requested include_cols), annset_retry annset_id])"
    by (cases include_cols)
      (simp_all add: export_annotation_set_csv_def annset_preferred_def annset_retry_def
        requested_def json_normalize_op_def Let_def keep none split: sum.splits)
qed

theorem exporter_fallbacks_witness:
  "read_csv execute_json_only (media_preferred 14233 [''id'', ''path_best''])
     = Inl (Failure ''no such template'')
   \<and> export_media_collection_csv remdups normalize_media execute_json_only 14233 None
     = (Inr \<lparr>columns = [''id'', ''path_best''],
             rows = [[PInt 5, PStr ''http://host/img5.jpg'']]\<rparr>,
        [media_preferred 14233 [''id'', ''path_best''],
         media_raw_json 14233 [''id'', ''path_best'']])
   \<and> read_csv execute_no_columns (annset_preferred 17711 [''id'', ''label.name''])
     = Inl (Failure ''columns not supported'')
   \<and> export_annotation_set_csv execute_no_columns 17711 (Some [''id'', ''label.name''])
     = (Inr \<lparr>columns = [''id'', ''label.name''], rows = [[PInt 1, PStr ''fish'']]\<rparr>,
        [annset_preferred 17711 [''id'', ''label.name''], annset_retry 17711])"
proof -
  have inc: "remdups (requested None @ [''id'', ''path_best'']) = [''id'', ''path_best'']"
    by code_simp
  have req: "requested (Some [''id'', ''label.name'']) = [''id'', ''label.name'']"
    by (simp add: requested_def)
  have m: "read_csv execute_json_only (media_preferred 14233 [''id'', ''path_best''])
      = Inl (Failure ''no such template'')"
    by code_simp
  have mj: "(case read_json normalize_media execute_json_only
                 (media_raw_json 14233 [''id'', ''path_best'']) of
             Inl e' \<Rightarrow> Inl e'
           | Inr df \<Rightarrow> Inr (keep_present df [''id'', ''path_best'']))
      = Inr \<lparr>columns = [''id'', ''path_best''],
             rows = [[PInt 5, PStr ''http://host/img5.jpg'']]\<rparr>"
    by code_simp
  have a: "read_csv execute_no_columns (annset_preferred 17711 [''id'', ''label.name''])
      = Inl (Failure ''columns not supported'')"
    by code_simp
  have ar: "(case read_csv execute_no_columns (annset_retry 17711) of
             Inl e' \<Rightarrow> Inl e'
           | Inr df \<Rightarrow> Inr (keep_present df [''id'', ''label.name'']))
      = Inr \<lparr>columns = [''id'', ''label.name''], rows = [[PInt 1, PStr ''fish'']]\<rparr>"
    by code_simp
  from m exporter_fallbacks
    [of execute_json_only 14233 remdups None "Failure ''no such template''" normalize_media]
  have r1: "export_media_collection_csv remdups normalize_media execute_json_only 14233 None
      = (Inr \<lparr>columns = [''id'', ''path_best''],
              rows = [[PInt 5, PStr ''http://host/img5.jpg'']]\<rparr>,
         [media_preferred 14233 [''id'', ''path_best''],
          media_raw_json 14233 [''id'', ''path_best'']])"
    unfolding inc mj by blast
  from a exporter_fallbacks
    [of execute_no_columns _ _ "Some [''id'', ''label.name'']" "Failure ''columns not supported''"
        _ 17711]
  have r2: "export_annotation_set_csv execute_no_columns 17711 (Some [''id'', ''label.name''])
      = (Inr \<lparr>columns = [''id'', ''label.name''], rows = [[PInt 1, PStr ''fish'']]\<rparr>,
         [annset_preferred 17711 [''id'', ''label.name''], annset_retry 17711])"
    unfolding req ar by blast
  from m r1 a r2 show ?thesis by blast
qed

lemma first_of_four:
  fixes a b c d :: "'e + 't"
  assumes "i < length [a, b, c, d]" and "[a, b, c, d] ! i = Inr t"
    and "\<forall>x\<in>set (take i [a, b, c, d]). isl x"
  shows "(case a of Inr t \<Rightarrow> t | Inl e1 \<Rightarrow>
          (case b of Inr t \<Rightarrow> t | Inl e2 \<Rightarrow>
          (case c of Inr t \<Rightarrow> t | Inl e3 \<Rightarrow>
          (case d of Inr t \<Rightarrow> t | Inl e4 \<Rightarrow> dflt)))) = t"
proof -
  from assms(1) have "i = 0 \<or> i = Suc 0 \<or> i = Suc (Suc 0) \<or> i = Suc (Suc (Suc 0))"
    by (auto simp: less_Suc_eq)
  then show ?thesis
  proof (elim disjE)
    assume "i = 0"
    with assms(2) show ?thesis by simp
  next
    assume i: "i = Suc 0"
    with assms(3) obtain e1 where "a = Inl e1" by (cases a) simp_all
    with assms(2) i show ?thesis by simp
  next
    assume i: "i = Suc (Suc 0)"
    with assms(3) obtain e1 e2 where "a = Inl e1" "b = Inl e2"
      by (cases a; cases b) simp_all
    with assms(2) i show ?thesis by simp
  next
    assume i: "i = Suc (Suc (Suc 0))"
    with assms(3) obtain e1 e2 e3 where "a = Inl e1" "b = Inl e2" "c = Inl e3"
      by (cases a; cases b; cases c) simp_all
    with assms(2) i show ?thesis by simp
  qed
qed

lemma none_of_four:
  fixes a b c d :: "'e + 't"
  assumes "\<forall>x\<in>set [a, b, c, d]. isl x"
  shows "(case a of Inr t \<Rightarrow> t | Inl e1 \<Rightarrow>
          (case b of Inr t \<Rightarrow> t | Inl e2 \<Rightarrow>
          (case c of Inr t \<Rightarrow> t | Inl e3 \<Rightarrow>
          (case d of Inr t \<Rightarrow> t | Inl e4 \<Rightarrow> dflt)))) = dflt"
proof -
  from assms obtain e1 e2 e3 e4 where "a = Inl e1" "b = Inl e2" "c = Inl e3" "d = Inl e4"
    by (cases a; cases b; cases c; cases d) simp_all
  then show ?thesis by simp
qed

lemma export_all_first:
  assumes "i < length (attempts coerce json_normalize execute media_id annset_id ann_fields)"
    and "attempts coerce json_normalize execute media_id annset_id ann_fields ! i = Inr t"
    and "\<forall>a\<in>set (take i (attempts coerce json_normalize execute media_id annset_id ann_fields)).
           isl a"
  shows "fst (export_all_annotations_for_media coerce json_normalize execute media_id annset_id
           ann_fields) = t"
  using assms unfolding attempts_def export_all_cases
  by (rule first_of_four)

lemma export_all_none:
  assumes "\<forall>a\<in>set (attempts coerce json_normalize execute media_id annset_id ann_fields). isl a"
  shows "fst (export_all_annotations_for_media coerce json_normalize execute media_id annset_id
           ann_fields) = \<lparr>columns = ann_fields, rows = []\<rparr>"
  using assms unfolding attempts_def export_all_cases
  by (rule none_of_four)

lemma export_all_zero_rows:
  assumes "read_csv execute
      (annotation_request ann_fields annset_id media_id json_normalize_op ''dataframe.csv''
         ''point.media.id'') = Inr df"
    and "rows df = []"
  shows "export_all_annotations_for_media coerce json_normalize execute media_id annset_id
      ann_fields
    = (df, [annotation_request ann_fields annset_id media_id json_normalize_op
              ''dataframe.csv'' ''point.media.id''])"
  using assms
  by (simp add: export_all_annotations_for_media_def media_fields_def attempt_csv_def
      hard_filter_def empty_df_def)

text \<open>
  Claim C9 as the specification words it returns the result of the first attempt with
  a non-error response. Here every request gets a non-error response with one row, in
  a table without a media column: the detector raises inside each attempt, all four
  requests are sent, and the call returns the empty table.
\<close>

theorem candidate_paths_counterexample:
  "read_csv execute_labels
       (annotation_request [''id'', ''label.name''] None 100 json_normalize_op ''dataframe.csv''
          ''point.media.id'') = Inr label_table
   \<and> rows label_table = [[PInt 1, PStr ''fish'']]
   \<and> fst (export_all_annotations_for_media coerce_cell normalize_labels execute_labels 100 None
        [''id'', ''label.name'']) = \<lparr>columns = [''id'', ''label.name''], rows = []\<rparr>
   \<and> length (snd (export_all_annotations_for_media coerce_cell normalize_labels execute_labels
        100 None [''id'', ''label.name''])) = 4"
proof -
  let ?e = "Inl (NoMediaCol [''id'', ''label.name'']) :: exn + pyval table"
  have r: "read_csv execute_labels
       (annotation_request [''id'', ''label.name''] None 100 json_normalize_op ''dataframe.csv''
          ''point.media.id'') = Inr label_table"
    by (simp add: read_csv_def execute_labels_def)
  have l: "rows label_table = [[PInt 1, PStr ''fish'']]"
    by (simp add: label_table_def)
  have a1: "attempt_csv coerce_cell execute_labels 100 None [''id'', ''label.name'']
      ''point.media.id'' = ?e"
    by code_simp
  have a2: "attempt_csv coerce_cell execute_labels 100 None [''id'', ''label.name'']
      ''point.media_id'' = ?e"
    by code_simp
  have a3: "attempt_json coerce_cell normalize_labels execute_labels 100 None
      [''id'', ''label.name''] ''point.media.id'' = ?e"
    by code_simp
  have a4: "attempt_json coerce_cell normalize_labels execute_labels 100 None
      [''id'', ''label.name''] ''point.media_id'' = ?e"
    by code_simp
  have f: "fst (export_all_annotations_for_media coerce_cell normalize_labels execute_labels 100
      None [''id'', ''label.name'']) = \<lparr>columns = [''id'', ''label.name''], rows = []\<rparr>"
    by (simp add: export_all_cases a1 a2 a3 a4)
  have s: "length (snd (export_all_annotations_for_media coerce_cell normalize_labels
      execute_labels 100 None [''id'', ''label.name''])) = 4"
    by (simp add: export_all_annotations_for_media_def media_fields_def a1 a2 a3 a4)
  from r l f s show ?thesis by blast
qed

text \<open>
  Claim C9, amended. The export makes up to four attempts in a fixed order: the
  candidate paths \<^verbatim>\<open>point.media.id\<close> and \<^verbatim>\<open>point.media_id\<close> on the server-side
  flattening, then the same two on raw JSON. It returns the table of the first attempt
  that completes without an exception, where an attempt is the request, the parsing
  of the reply and, for a non-empty table, the detection of the media column and the
  local filter; an attempt whose reply is fine but whose local step raises is passed
  over like a failed request. A first reply with zero rows is returned as it is. When
  no attempt completes, the call returns the table with the requested columns and no
  row; it never raises.
\<close>

theorem candidate_paths_first_success:
  "(i < length (attempts coerce json_normalize execute media_id annset_id ann_fields) \<and>
      attempts coerce json_normalize execute media_id annset_id ann_fields ! i = Inr t \<and>
      (\<forall>a\<in>set (take i (attempts coerce json_normalize execute media_id annset_id ann_fields)).
          isl a)
      \<longrightarrow> fst (export_all_annotations_for_media coerce json_normalize execute media_id
                annset_id ann_fields) = t)
   \<and> ((\<forall>a\<in>set (attempts coerce json_normalize execute media_id annset_id ann_fields). isl a)
      \<longrightarrow> fst (export_all_annotations_for_media coerce json_normalize execute media_id
                annset_id ann_fields) = \<lparr>columns = ann_fields, rows = []\<rparr>)
   \<and> (read_csv execute
          (annotation_request ann_fields annset_id media_id json_normalize_op ''dataframe.csv''
             ''point.media.id'') = Inr df \<and> rows df = []
      \<longrightarrow> export_all_annotations_for_media coerce json_normalize execute media_id annset_id
            ann_fields
          = (df, [annotation_request ann_fields annset_id media_id json_normalize_op
                    ''dataframe.csv'' ''point.media.id'']))"
  using export_all_first [of i coerce json_normalize execute media_id annset_id ann_fields t]
    export_all_none [of coerce json_normalize execute media_id annset_id ann_fields]
    export_all_zero_rows [of execute ann_fields annset_id media_id df coerce json_normalize]
  by blast

theorem candidate_paths_first_success_witness:
  "fst (export_all_annotations_for_media coerce_cell normalize_labels execute_media_id_only 100
      None [''id'', ''point.media.id''])
     = \<lparr>columns = [''id'', ''point.media.id''], rows = [[PInt 1, PInt 100]]\<rparr>
   \<and> fst (export_all_annotations_for_media coerce_cell normalize_labels execute_labels 100 None
      [''id'', ''label.name'']) = \<lparr>columns = [''id'', ''label.name''], rows = []\<rparr>
   \<and> fst (export_all_annotations_for_media coerce_cell normalize_labels execute_no_rows 100 None
      [''id'', ''point.media.id'']) = no_rows_table"
proof -
  let ?t = "\<lparr>columns = [''id'', ''point.media.id''], rows = [[PInt 1, PInt 100]]\<rparr> :: pyval table"
  have h1: "1 < length (attempts coerce_cell normalize_labels execute_media_id_only 100 None
        [''id'', ''point.media.id'']) \<and>
      attempts coerce_cell normalize_labels execute_media_id_only 100 None
        [''id'', ''point.media.id''] ! 1 = Inr ?t \<and>
      (\<forall>a\<in>set (take 1 (attempts coerce_cell normalize_labels execute_media_id_only 100 None
        [''id'', ''point.media.id''])). isl a)"
    by code_simp
  have h2: "\<forall>a\<in>set (attempts coerce_cell normalize_labels execute_labels 100 None
      [''id'', ''label.name'']). isl a"
    by code_simp
  have h3: "read_csv execute_no_rows
        (annotation_request [''id'', ''point.media.id''] None 100 json_normalize_op
           ''dataframe.csv'' ''point.media.id'') = Inr no_rows_table \<and> rows no_rows_table = []"
    by code_simp
  from h1 candidate_paths_first_success
    [of 1 coerce_cell normalize_labels execute_media_id_only 100 None
        "[''id'', ''point.media.id'']" ?t]
  have r1: "fst (export_all_annotations_for_media coerce_cell normalize_labels
      execute_media_id_only 100 None [''id'', ''point.media.id'']) = ?t"
    by blast
  from h2 candidate_paths_first_success
    [of _ coerce_cell normalize_labels execute_labels 100 None "[''id'', ''label.name'']"]
  have r2: "fst (export_all_annotations_for_media coerce_cell normalize_labels execute_labels
      100 None [''id'', ''label.name'']) = \<lparr>columns = [''id'', ''label.name''], rows = []\<rparr>"
    by blast
  from h3 candidate_paths_first_success
    [of _ coerce_cell normalize_labels execute_no_rows 100 None "[''id'', ''point.media.id'']" _
        no_rows_table]
  have r3: "export_all_annotations_for_media coerce_cell normalize_labels execute_no_rows 100
      None [''id'', ''point.media.id'']
    = (no_rows_table, [annotation_request [''id'', ''point.media.id''] None 100
         json_normalize_op ''dataframe.csv'' ''point.media.id''])"
    by blast
  from r1 r2 r3 show ?thesis by simp
qed

text \<open>
  Claim C10. Whatever the remote answers, a non-empty table returned by
  \<^verbatim>\<open>export_all_annotations_for_media\<close> has a media-reference column that the detector
  finds, and in every row the cell of that column reads as the integer \<open>media_id\<close>. No
  assumption is made on the remote: it may have ignored the equality filter.
\<close>

theorem export_all_hard_filtered:
  "\<not> empty_df (fst (export_all_annotations_for_media coerce json_normalize execute media_id
         annset_id ann_fields))
   \<longrightarrow> (\<exists>col.
         detect_ann_media_col
           (columns (fst (export_all_annotations_for_media coerce json_normalize execute media_id
              annset_id ann_fields))) = Inr col \<and>
         (\<forall>r\<in>set (rows (fst (export_all_annotations_for_media coerce json_normalize execute
                media_id annset_id ann_fields))).
            join_key coerce
              (fst (export_all_annotations_for_media coerce json_normalize execute media_id
                 annset_id ann_fields)) col r = Inr (Some media_id)))"
proof
  let ?t = "fst (export_all_annotations_for_media coerce json_normalize execute media_id
         annset_id ann_fields)"
  let ?good = "\<lambda>t. \<exists>col. detect_ann_media_col (columns t) = Inr col \<and>
         (\<forall>r\<in>set (rows t). join_key coerce t col r = Inr (Some media_id))"
  assume ne: "\<not> empty_df ?t"
  have "(\<exists>f. attempt_csv coerce execute media_id annset_id ann_fields f = Inr ?t)
      \<or> (\<exists>f. attempt_json coerce json_normalize execute media_id annset_id ann_fields f = Inr ?t)
      \<or> ?t = \<lparr>columns = ann_fields, rows = []\<rparr>"
    unfolding export_all_cases by (auto split: sum.splits)
  then show "?good ?t"
  proof (elim disjE exE)
    fix f
    assume "attempt_csv coerce execute media_id annset_id ann_fields f = Inr ?t"
    with ne show "?good ?t" by (rule attempt_csv_rows [rotated])
  next
    fix f
    assume "attempt_json coerce json_normalize execute media_id annset_id ann_fields f = Inr ?t"
    with ne show "?good ?t" by (rule attempt_json_rows [rotated])
  next
    assume "?t = \<lparr>columns = ann_fields, rows = []\<rparr>"
    then have "empty_df ?t" by (simp add: empty_df_def)
    with ne show "?good ?t" by simp
  qed
qed

theorem export_all_hard_filtered_witness:
  "\<not> empty_df (fst (export_all_annotations_for_media coerce_cell normalize_labels
        execute_unfiltered 100 None [''id'', ''point.media.id'']))
   \<and> rows unfiltered_table = [[PInt 1, PInt 100], [PInt 2, PInt 200], [PInt 3, PNaN]]
   \<and> rows (fst (export_all_annotations_for_media coerce_cell normalize_labels
        execute_unfiltered 100 None [''id'', ''point.media.id''])) = [[PInt 1, PInt 100]]
   \<and> (\<exists>col. detect_ann_media_col (columns (fst (export_all_annotations_for_media coerce_cell
           normalize_labels execute_unfiltered 100 None [''id'', ''point.media.id'']))) = Inr col)"
proof -
  have a: "attempt_csv coerce_cell execute_unfiltered 100 None [''id'', ''point.media.id'']
      ''point.media.id''
    = Inr \<lparr>columns = [''id'', ''point.media.id''], rows = [[PInt 1, PInt 100]]\<rparr>"
    by code_simp
  have t: "fst (export_all_annotations_for_media coerce_cell normalize_labels
        execute_unfiltered 100 None [''id'', ''point.media.id''])
    = \<lparr>columns = [''id'', ''point.media.id''], rows = [[PInt 1, PInt 100]]\<rparr>"
    by (simp add: export_all_cases a)
  have ne: "\<not> empty_df (fst (export_all_annotations_for_media coerce_cell normalize_labels
        execute_unfiltered 100 None [''id'', ''point.media.id'']))"
    by (simp add: t empty_df_def)
  have u: "rows unfiltered_table = [[PInt 1, PInt 100], [PInt 2, PInt 200], [PInt 3, PNaN]]"
    by (simp add: unfiltered_table_def)
  from ne export_all_hard_filtered
    [of coerce_cell normalize_labels execute_unfiltered 100 None "[''id'', ''point.media.id'']"]
  have "\<exists>col. detect_ann_media_col (columns (fst (export_all_annotations_for_media coerce_cell
           normalize_labels execute_unfiltered 100 None [''id'', ''point.media.id'']))) = Inr col"
    by blast
  with ne u t show ?thesis by simp
qed

section \<open>Properties of the Bulk Asset Downloader\<close>

lemma collect_dom:
  "dom (collect rs saved) = dom saved \<union> {mid. \<exists>p. (mid, Some p) \<in> set rs}"
proof (induction rs arbitrary: saved)
  case Nil
  show ?case by simp
next
  case (Cons r rs)
  obtain mid p where r: "r = (mid, p)" by (cases r)
  show ?case
  proof (cases p)
    case None
    with r Cons.IH [of saved] show ?thesis by auto
  next
    case (Some path)
    with r have a: "collect (r # rs) saved = collect rs (saved(mid \<mapsto> path))" by simp
    from r Some have b: "{m. \<exists>p. (m, Some p) \<in> set (r # rs)}
        = insert mid {m. \<exists>p. (m, Some p) \<in> set rs}" by auto
    show ?thesis
      unfolding a b Cons.IH [of "saved(mid \<mapsto> path)"] by simp
  qed
qed

lemma one_item_saved:
  "(mid, Some p) \<in> set (map fst (map (one_item save) ts))
   \<longleftrightarrow> (\<exists>url. (mid, url) \<in> set ts \<and> save mid url = Inr p)"
  by (induction ts) (auto simp: one_item_def split: sum.splits)

lemma one_item_warnings:
  "length (concat (map snd (map (one_item save) ts)))
   = length (filter (\<lambda>task. isl (save (fst task) (snd task))) ts)"
  by (induction ts) (auto simp: one_item_def split: sum.splits)

lemma schedule_length:
  "schedule repr t url_col id_col rs = Inr tasks \<Longrightarrow>
   length tasks = length (filter (\<lambda>r. row_url repr t url_col r \<noteq> []) rs)"
proof (induction rs arbitrary: tasks)
  case Nil
  then show ?case by simp
next
  case (Cons r rs)
  then show ?case
    by (auto simp: Let_def split: if_splits sum.splits)
qed

lemma saved_ids:
  assumes "mset order = mset tasks"
  shows "dom (collect (map fst (map (one_item save) order)) Map.empty)
    = fst ` set (filter (\<lambda>task. \<not> isl (save (fst task) (snd task))) tasks)"
proof -
  from assms have s: "set order = set tasks" by (rule mset_eq_setD)
  have "dom (collect (map fst (map (one_item save) order)) Map.empty)
      = {mid. \<exists>p url. (mid, url) \<in> set order \<and> save mid url = Inr p}"
    unfolding collect_dom one_item_saved by auto
  also have "\<dots> = fst ` set (filter (\<lambda>task. \<not> isl (save (fst task) (snd task))) tasks)"
    unfolding s
  proof (intro set_eqI iffI)
    fix mid
    assume "mid \<in> {mid. \<exists>p url. (mid, url) \<in> set tasks \<and> save mid url = Inr p}"
    then obtain p url where "(mid, url) \<in> set tasks" and "save mid url = Inr p" by blast
    then have "(mid, url) \<in> set (filter (\<lambda>task. \<not> isl (save (fst task) (snd task))) tasks)"
      by simp
    then show "mid \<in> fst ` set (filter (\<lambda>task. \<not> isl (save (fst task) (snd task))) tasks)"
      by force
  next
    fix mid
    assume "mid \<in> fst ` set (filter (\<lambda>task. \<not> isl (save (fst task) (snd task))) tasks)"
    then obtain url where t: "(mid, url) \<in> set tasks" and ok: "\<not> isl (save mid url)"
      by auto
    from ok obtain p where "save mid url = Inr p" by (cases "save mid url") simp_all
    with t show "mid \<in> {mid. \<exists>p url. (mid, url) \<in> set tasks \<and> save mid url = Inr p}"
      by blast
  qed
  finally show ?thesis .
qed

text \<open>
  The per-item isolation of the downloader, for the rows that are scheduled: when the
  scheduling loop completes with the tasks \<open>tasks\<close>, with pairwise different
  identifiers, and exactly one of them fails, the call returns, in whatever order the
  workers complete, a mapping with one entry per task but one, for the identifiers of
  the tasks that did not fail, and prints one warning. The tasks are as many as the
  rows whose URL text is not empty.
\<close>

theorem download_per_item_isolation:
  assumes "schedule repr media_df url_col id_col (rows media_df) = Inr tasks"
    and "mset (completion tasks) = mset tasks"
    and "distinct (map fst tasks)"
    and "length (filter (\<lambda>task. isl (save (fst task) (snd task))) tasks) = 1"
  shows "\<exists>saved warnings.
      download_images_from_export repr save completion media_df url_col id_col
        = Inr (saved, warnings)
      \<and> card (dom saved) = length tasks - 1
      \<and> dom saved = fst ` set (filter (\<lambda>task. \<not> isl (save (fst task) (snd task))) tasks)
      \<and> length warnings = 1
      \<and> length tasks
          = length (filter (\<lambda>r. row_url repr media_df url_col r \<noteq> []) (rows media_df))"
proof -
  let ?ok = "\<lambda>task. \<not> isl (save (fst task) (snd task))"
  let ?done = "map (one_item save) (completion tasks)"
  let ?saved = "collect (map fst ?done) Map.empty"
  let ?warnings = "concat (map snd ?done)"
  have call: "download_images_from_export repr save completion media_df url_col id_col
      = Inr (?saved, ?warnings)"
    using assms(1) by (simp add: download_images_from_export_def)
  have ids: "dom ?saved = fst ` set (filter ?ok tasks)"
    using assms(2) by (rule saved_ids)
  have "distinct (map fst (filter ?ok tasks))"
    using assms(3) by (rule distinct_map_filter)
  then have "card (fst ` set (filter ?ok tasks)) = length (filter ?ok tasks)"
    using distinct_card [of "map fst (filter ?ok tasks)"] by simp
  moreover have "length (filter ?ok tasks) + 1 = length tasks"
    using sum_length_filter_compl [of "\<lambda>task. isl (save (fst task) (snd task))" tasks] assms(4)
    by simp
  ultimately have cnt: "card (dom ?saved) = length tasks - 1"
    using ids by simp
  have "mset (filter (\<lambda>task. isl (save (fst task) (snd task))) (completion tasks))
      = mset (filter (\<lambda>task. isl (save (fst task) (snd task))) tasks)"
    using assms(2) by simp
  then have "length (filter (\<lambda>task. isl (save (fst task) (snd task))) (completion tasks))
      = length (filter (\<lambda>task. isl (save (fst task) (snd task))) tasks)"
    by (rule mset_eq_length)
  then have warn: "length ?warnings = 1"
    using assms(4) by (simp only: one_item_warnings)
  from call cnt ids warn schedule_length [OF assms(1)] show ?thesis by blast
qed

theorem download_per_item_isolation_witness:
  "schedule repr media_three ''path_best'' ''id'' (rows media_three)
     = Inr [(1, ''http://host/a.jpg''), (2, ''ftp://host/b.jpg''), (3, ''http://host/c.jpg'')]
   \<and> (\<exists>saved warnings.
        download_images_from_export repr save_http rev media_three ''path_best'' ''id''
          = Inr (saved, warnings) \<and> card (dom saved) = 2 \<and> dom saved = {1, 3})"
proof -
  let ?tasks = "[(1, ''http://host/a.jpg''), (2, ''ftp://host/b.jpg''), (3, ''http://host/c.jpg'')]
      :: (int \<times> string) list"
  have s: "schedule repr media_three ''path_best'' ''id'' (rows media_three) = Inr ?tasks"
    by (simp add: media_three_def row_url_def row_get_def row_item_def py_or_def)
  have m: "mset (rev ?tasks) = mset ?tasks" by simp
  have d: "distinct (map fst ?tasks)" by simp
  have f: "length (filter (\<lambda>task. isl (save_http (fst task) (snd task))) ?tasks) = 1"
    by (simp add: save_http_def)
  have ok: "fst ` set (filter (\<lambda>task. \<not> isl (save_http (fst task) (snd task))) ?tasks) = {1, 3}"
    by (simp add: save_http_def)
  from download_per_item_isolation [where completion = rev and save = save_http, OF s m d f]
    ok s show ?thesis
    by auto
qed

text \<open>
  Claim C6 at the input where the code departs from it. The second record of the table
  has no URL; as \<^verbatim>\<open>read_csv\<close> gives the table, its cell is NaN. NaN is true, so
  \<^verbatim>\<open>nan or ""\<close> is NaN and \<open>url\<close> is the text \<^verbatim>\<open>nan\<close>: the row is not passed over, a
  download of \<^verbatim>\<open>nan\<close> is submitted for the identifier 2, and its failure is printed as
  a warning. A cell \<^verbatim>\<open>None\<close> or an empty string in the same place is passed over.
\<close>

theorem download_nan_url_scheduled:
  "schedule repr media_missing_url ''path_best'' ''id'' (rows media_missing_url)
     = Inr [(1, ''http://host/a.jpg''), (2, ''nan'')]
   \<and> download_images_from_export repr save_http rev media_missing_url ''path_best'' ''id''
     = Inr ([1 \<mapsto> (1, ''http://host/a.jpg'')], [(2, Failure ''invalid URL'')])
   \<and> schedule repr (media_missing_url\<lparr>rows := [[PInt 1, PStr ''http://host/a.jpg''],
          [PInt 2, PNone], [PInt 3, PStr '''']]\<rparr>) ''path_best'' ''id''
        [[PInt 1, PStr ''http://host/a.jpg''], [PInt 2, PNone], [PInt 3, PStr '''']]
     = Inr [(1, ''http://host/a.jpg'')]"
  by (simp add: download_images_from_export_def media_missing_url_def row_url_def row_get_def
      row_item_def py_or_def one_item_def save_http_def)

end
